theory Spec2Isabelle
  imports Complex_Main "HOL-Library.Word"
begin

section \<open>JavaScript strings and the \<open>||\<close> operator\<close>

text \<open>
  A JavaScript string is a sequence of UTF-16 code units; \<open>length\<close>, \<open>slice\<close>,
  \<open>substring\<close>, \<open>padStart\<close> and \<open>padEnd\<close> all count code units, and \<open>===\<close> on
  strings is equality of the sequences. String literals of the source are ASCII and
  are written through \<open>js\<close>.
\<close>

type_synonym jsstring = "16 word list"

definition js :: "string \<Rightarrow> jsstring" where
  "js s = map (\<lambda>c. of_nat (of_char c)) s"

text \<open>
  \<open>x || d\<close> on an optional string: \<open>undefined\<close> and the empty string are falsy.
\<close>

definition or_str :: "jsstring option \<Rightarrow> jsstring \<Rightarrow> jsstring" where
  "or_str x d = (case x of None \<Rightarrow> d | Some s \<Rightarrow> if s = [] then d else s)"

text \<open>
  \<open>x || d\<close> on a field that is only stored and compared with \<open>0\<close> (a version, a
  timestamp, a number of days): \<open>0\<close> and \<open>undefined\<close> are falsy.
\<close>

definition or_num :: "int \<Rightarrow> int \<Rightarrow> int" where
  "or_num x d = (if x = 0 then d else x)"

definition or_num_opt :: "int option \<Rightarrow> int \<Rightarrow> int" where
  "or_num_opt x d = (case x of None \<Rightarrow> d | Some n \<Rightarrow> or_num n d)"

section \<open>Numbers the program computes with\<close>

text \<open>
  The scarcity counts are JavaScript numbers, that is IEEE 754 doubles, and the
  handlers add and subtract them. The backend declares the counts as natural numbers
  (\<open>total_limit : Nat\<close>, \<open>minted_count : Nat\<close> in \<open>types.mo\<close>), so the values that travel
  are whole numbers; a \<open>jsnum\<close> is a double with an integer value (\<open>Fin x\<close>, where \<open>x\<close>
  is the value; \<open>0\<close> and \<open>-0\<close> are not told apart, the program never divides by one),
  an infinity, or \<open>NaN\<close>. A double has 53 significant bits: an integer below \<open>2^53\<close>
  in magnitude is held exactly, a larger one only if it is a multiple of the power of
  two that its size asks for. The result of an addition or subtraction is the exact
  result rounded to the nearest double, a tie going to the neighbour with the even
  significand, and a result of magnitude \<open>2^1024\<close> or more after rounding is an
  infinity.
\<close>

datatype jsnum = Fin int | PosInf | NegInf | NaN

function bit_length :: "nat \<Rightarrow> nat" where
  "bit_length n = (if n = 0 then 0 else Suc (bit_length (n div 2)))"
  by pat_completeness auto
termination
  by (relation "measure id") auto

declare bit_length.simps [simp del]

definition round_nat :: "nat \<Rightarrow> nat" where
  "round_nat n =
     (if n < 2 ^ 53 then n
      else
        (let k = bit_length n - 53;
             q = n div 2 ^ k;
             r = n mod 2 ^ k;
             half = 2 ^ (k - 1)
         in (if r > half \<or> (r = half \<and> odd q) then q + 1 else q) * 2 ^ k))"

definition js_round :: "int \<Rightarrow> jsnum" where
  "js_round x =
     (let m = round_nat (nat \<bar>x\<bar>) in
      if m \<ge> 2 ^ 1024 then (if x < 0 then NegInf else PosInf)
      else Fin (if x < 0 then - int m else int m))"

fun js_neg :: "jsnum \<Rightarrow> jsnum" where
  "js_neg (Fin x) = Fin (- x)"
| "js_neg PosInf = NegInf"
| "js_neg NegInf = PosInf"
| "js_neg NaN = NaN"

fun js_add :: "jsnum \<Rightarrow> jsnum \<Rightarrow> jsnum" where
  "js_add (Fin x) (Fin y) = js_round (x + y)"
| "js_add NaN _ = NaN"
| "js_add _ NaN = NaN"
| "js_add PosInf NegInf = NaN"
| "js_add NegInf PosInf = NaN"
| "js_add PosInf _ = PosInf"
| "js_add _ PosInf = PosInf"
| "js_add NegInf _ = NegInf"
| "js_add _ NegInf = NegInf"

definition js_sub :: "jsnum \<Rightarrow> jsnum \<Rightarrow> jsnum" where
  "js_sub a b = js_add a (js_neg b)"

text \<open>\<open>x <= 0\<close> and \<open>x > 0\<close>; both are false of \<open>NaN\<close>.\<close>

fun js_le0 :: "jsnum \<Rightarrow> bool" where
  "js_le0 (Fin x) = (x \<le> 0)"
| "js_le0 NegInf = True"
| "js_le0 _ = False"

fun js_gt0 :: "jsnum \<Rightarrow> bool" where
  "js_gt0 (Fin x) = (x > 0)"
| "js_gt0 PosInf = True"
| "js_gt0 _ = False"

text \<open>\<open>x || d\<close> on a count: \<open>0\<close> and \<open>NaN\<close> are falsy.\<close>

fun js_or :: "jsnum \<Rightarrow> jsnum \<Rightarrow> jsnum" where
  "js_or (Fin x) d = (if x = 0 then d else Fin x)"
| "js_or NaN d = d"
| "js_or x d = x"

text \<open>The integers that a double holds with no neighbour lost: \<open>Number.isSafeInteger\<close>.\<close>

fun safe_integer :: "jsnum \<Rightarrow> bool" where
  "safe_integer (Fin x) = (\<bar>x\<bar> < 2 ^ 53)"
| "safe_integer _ = False"

section \<open>Data model (interfaces of \<open>src/pages/Index.tsx\<close>)\<close>

text \<open>
  \<open>ScarcityInfo\<close>: the counts are numbers the handlers compute with; scores and
  multipliers are finite JSON numbers, on which the client does no arithmetic. \<open>remaining_slots\<close> is declared
  optional. \<open>total_supply\<close> is not declared in \<open>Index.tsx\<close> but is written into the
  object by the page's \<open>scarcity_update\<close> handler (and declared optional in
  \<open>src/types/nft.ts\<close>), so the objects held at run time carry it.
\<close>

record ScarcityInfo =
  combination :: jsstring
  total_limit :: jsnum
  minted_count :: jsnum
  rarity_score :: rat
  price_multiplier :: rat
  is_sold_out :: bool
  remaining_slots :: "jsnum option"
  total_supply :: "jsnum option"

record CombinationScarcityAPI =
  artist :: jsstring
  event_type :: jsstring
  is_available :: bool
  scarcity_info :: ScarcityInfo
  waitlist_count :: int
  estimated_availability :: jsstring
  combo_price_multiplier :: rat

record ScarcityUpdateMessage =
  su_artist :: jsstring
  su_event_type :: jsstring
  su_remaining_slots :: jsnum
  su_total_supply :: jsnum
  su_is_available :: bool
  su_timestamp :: int

record NewMintMessage =
  nm_nft_id :: jsstring
  nm_name :: jsstring
  nm_image_url :: jsstring
  nm_artist :: jsstring
  nm_event_type :: jsstring
  nm_owner_address :: jsstring
  nm_canister_id :: jsstring
  nm_timestamp :: int

section \<open>Scarcity handlers of the main page\<close>

text \<open>
  Each handler calls \<open>setAllCombinationsScarcity(prev => prev.map(combo => ...))\<close>; the
  functions below are the state updaters, from the previous list to the next one.
  The per-combination function is the body of the arrow function given to \<open>map\<close>.
  The toasts that the handlers show besides are not part of the list and are left out.
\<close>

definition newMintCombo :: "NewMintMessage \<Rightarrow> CombinationScarcityAPI \<Rightarrow> CombinationScarcityAPI" where
  "newMintCombo data combo =
     (if artist combo = nm_artist data \<and> event_type combo = nm_event_type data then
        (let currentMinted = js_or (minted_count (scarcity_info combo)) (Fin 0);
             currentTotal = js_or (total_limit (scarcity_info combo)) (Fin 0);
             newMintedCount = js_add currentMinted (Fin 1);
             newRemainingSlots = js_sub currentTotal newMintedCount
         in combo\<lparr>scarcity_info := (scarcity_info combo)
                      \<lparr>minted_count := newMintedCount,
                       remaining_slots := Some newRemainingSlots,
                       is_sold_out := js_le0 newRemainingSlots\<rparr>,
                  is_available := js_gt0 newRemainingSlots\<rparr>)
      else combo)"

definition handleNewMint :: "NewMintMessage \<Rightarrow> CombinationScarcityAPI list \<Rightarrow> CombinationScarcityAPI list" where
  "handleNewMint data prev = map (newMintCombo data) prev"

definition scarcityUpdateCombo :: "ScarcityUpdateMessage \<Rightarrow> CombinationScarcityAPI \<Rightarrow> CombinationScarcityAPI" where
  "scarcityUpdateCombo data combo =
     (if artist combo = su_artist data \<and> event_type combo = su_event_type data then
        (let newMintedCount = js_sub (su_total_supply data) (su_remaining_slots data)
         in combo\<lparr>scarcity_info := (scarcity_info combo)
                      \<lparr>remaining_slots := Some (su_remaining_slots data),
                       total_supply := Some (su_total_supply data),
                       minted_count := newMintedCount,
                       is_sold_out := js_le0 (su_remaining_slots data)\<rparr>,
                  is_available := su_is_available data\<rparr>)
      else combo)"

definition handleScarcityUpdate :: "ScarcityUpdateMessage \<Rightarrow> CombinationScarcityAPI list \<Rightarrow> CombinationScarcityAPI list" where
  "handleScarcityUpdate data prev = map (scarcityUpdateCombo data) prev"

text \<open>
  The \<open>onScarcityChange\<close> callback handed to \<open>ScarcityIndicator\<close>; the closure holds the
  page's \<open>selectedArtist\<close> and \<open>selectedEvent\<close> of the render that created it.
\<close>

definition scarcityChangeCombo :: "jsstring \<Rightarrow> jsstring \<Rightarrow> jsnum \<Rightarrow> CombinationScarcityAPI \<Rightarrow> CombinationScarcityAPI" where
  "scarcityChangeCombo selectedArtist selectedEvent remaining combo =
     (if artist combo = selectedArtist \<and> event_type combo = selectedEvent then
        (let newMintedCount = js_sub (js_or (total_limit (scarcity_info combo)) (Fin 0)) remaining;
             newRemainingSlots = remaining
         in combo\<lparr>scarcity_info := (scarcity_info combo)
                      \<lparr>minted_count := newMintedCount,
                       remaining_slots := Some newRemainingSlots,
                       is_sold_out := js_le0 newRemainingSlots\<rparr>,
                  is_available := js_gt0 newRemainingSlots\<rparr>)
      else combo)"

definition onScarcityChange :: "jsstring \<Rightarrow> jsstring \<Rightarrow> jsnum \<Rightarrow> CombinationScarcityAPI list \<Rightarrow> CombinationScarcityAPI list" where
  "onScarcityChange selectedArtist selectedEvent remaining prev =
     map (scarcityChangeCombo selectedArtist selectedEvent remaining) prev"

section \<open>Reachable scarcity states\<close>

text \<open>
  The three ways the page changes \<open>allCombinationsScarcity\<close> after the REST fetch has
  stored the snapshot.
\<close>

datatype scarcity_event =
    NewMint NewMintMessage
  | ScarcityUpdate ScarcityUpdateMessage
  | ScarcityChange jsstring jsstring jsnum

fun applyScarcityEvent :: "CombinationScarcityAPI list \<Rightarrow> scarcity_event \<Rightarrow> CombinationScarcityAPI list" where
  "applyScarcityEvent prev (NewMint data) = handleNewMint data prev"
| "applyScarcityEvent prev (ScarcityUpdate data) = handleScarcityUpdate data prev"
| "applyScarcityEvent prev (ScarcityChange a e remaining) = onScarcityChange a e remaining prev"

definition scarcityAfter :: "CombinationScarcityAPI list \<Rightarrow> scarcity_event list \<Rightarrow> CombinationScarcityAPI list" where
  "scarcityAfter snapshot evs = foldl applyScarcityEvent snapshot evs"

text \<open>The states the list passes through, one after each event.\<close>

fun scarcityStates :: "CombinationScarcityAPI list \<Rightarrow> scarcity_event list \<Rightarrow> CombinationScarcityAPI list list" where
  "scarcityStates prev [] = []"
| "scarcityStates prev (ev # evs) =
     applyScarcityEvent prev ev # scarcityStates (applyScarcityEvent prev ev) evs"

text \<open>
  The three relations between the scarcity fields of one combination, read of the
  values the fields hold.
\<close>

fun scarcity_relations :: "jsnum \<Rightarrow> jsnum \<Rightarrow> jsnum option \<Rightarrow> bool \<Rightarrow> bool \<Rightarrow> bool" where
  "scarcity_relations (Fin t) (Fin m) (Some (Fin r)) sold_out available =
     (r = t - m \<and> sold_out = (r \<le> 0) \<and> available = (r > 0))"
| "scarcity_relations _ _ _ _ _ = False"

definition scarcity_consistent :: "CombinationScarcityAPI \<Rightarrow> bool" where
  "scarcity_consistent c =
     scarcity_relations (total_limit (scarcity_info c)) (minted_count (scarcity_info c))
       (remaining_slots (scarcity_info c)) (is_sold_out (scarcity_info c)) (is_available c)"

text \<open>The three counts of a combination are safe integers.\<close>

definition safe_counts :: "CombinationScarcityAPI \<Rightarrow> bool" where
  "safe_counts c \<longleftrightarrow>
     safe_integer (total_limit (scarcity_info c)) \<and>
     safe_integer (minted_count (scarcity_info c)) \<and>
     (case remaining_slots (scarcity_info c) of None \<Rightarrow> False | Some r \<Rightarrow> safe_integer r)"

text \<open>
  A \<open>scarcity_update\<close> message agrees with a combination it addresses when its
  \<open>total_supply\<close> is the combination's \<open>total_limit\<close> and its \<open>is_available\<close> flag says
  that slots remain. The other two events carry no scarcity numbers of their own
  beyond the remaining count.
\<close>

fun event_agrees :: "CombinationScarcityAPI \<Rightarrow> scarcity_event \<Rightarrow> bool" where
  "event_agrees c (ScarcityUpdate data) =
     (artist c = su_artist data \<and> event_type c = su_event_type data \<longrightarrow>
        su_total_supply data = total_limit (scarcity_info c) \<and>
        su_is_available data = js_gt0 (su_remaining_slots data))"
| "event_agrees c _ = True"

section \<open>The \<open>ScarcityIndicator\<close> component\<close>

record ScarcityIndicatorProps =
  p_artist :: jsstring
  p_eventType :: jsstring
  initialTotalSupply :: jsnum
  initialRemainingSlots :: jsnum
  has_onScarcityChange :: bool



section \<open>Sockets, effects and their cleanups\<close>

text \<open>
  A socket.io client socket as far as the effects use it: the connection flag, the
  registered listeners by event name, and the packets emitted. A listener is a
  closure; the page's listeners are created once per effect run, the indicator's
  listener holds the artist and event type of the render that created it.
  \<open>socket.off(event, listener)\<close> takes one registration of the listener away (the
  emitter stops at the first match); \<open>disconnect\<close> clears the connection flag.
\<close>

datatype listener =
    OnConnect | OnDisconnect | OnConnectError
  | HandleNewMint | HandleScarcityUpdate | HandleEvolutionUpdate
  | IndicatorHandleScarcityUpdate jsstring jsstring bool

datatype payload = RoomData jsstring jsstring

record socket =
  connected :: bool
  listeners :: "(jsstring \<times> listener) list"
  emitted :: "(jsstring \<times> payload) list"

definition io_socket :: socket where
  "io_socket = \<lparr>connected = False, listeners = [], emitted = []\<rparr>"

definition sock_on :: "jsstring \<Rightarrow> listener \<Rightarrow> socket \<Rightarrow> socket" where
  "sock_on ev l s = s\<lparr>listeners := listeners s @ [(ev, l)]\<rparr>"

definition sock_off :: "jsstring \<Rightarrow> listener \<Rightarrow> socket \<Rightarrow> socket" where
  "sock_off ev l s = s\<lparr>listeners := remove1 (ev, l) (listeners s)\<rparr>"

definition sock_emit :: "jsstring \<Rightarrow> payload \<Rightarrow> socket \<Rightarrow> socket" where
  "sock_emit ev p s = s\<lparr>emitted := emitted s @ [(ev, p)]\<rparr>"

definition sock_disconnect :: "socket \<Rightarrow> socket" where
  "sock_disconnect s = s\<lparr>connected := False\<rparr>"

text \<open>
  The page's WebSocket effect. It returns at once, with no cleanup, when
  \<open>socketRef.current\<close> holds a connected socket; otherwise it registers its listeners
  on the socket that \<open>io\<close> returns, stores that socket in \<open>socketRef.current\<close> and
  returns the cleanup. The result is the new \<open>socketRef.current\<close> and whether a
  cleanup was returned.
\<close>

definition pageSocketListeners :: "socket \<Rightarrow> socket" where
  "pageSocketListeners s =
     sock_on (js ''evolution_update'') HandleEvolutionUpdate
       (sock_on (js ''scarcity_update'') HandleScarcityUpdate
         (sock_on (js ''new_mint'') HandleNewMint
           (sock_on (js ''connect_error'') OnConnectError
             (sock_on (js ''disconnect'') OnDisconnect
               (sock_on (js ''connect'') OnConnect s)))))"

definition pageSocketEffect :: "socket option \<Rightarrow> socket option \<times> bool" where
  "pageSocketEffect socketRef =
     (if (case socketRef of None \<Rightarrow> False | Some s \<Rightarrow> connected s) then (socketRef, False)
      else (Some (pageSocketListeners io_socket), True))"

definition pageSocketCleanup :: "socket \<Rightarrow> socket" where
  "pageSocketCleanup s =
     sock_disconnect
       (sock_off (js ''evolution_update'') HandleEvolutionUpdate
         (sock_off (js ''scarcity_update'') HandleScarcityUpdate
           (sock_off (js ''new_mint'') HandleNewMint s)))"

text \<open>
  The indicator's effect body runs only under \<open>socket && isConnected\<close>; only then does
  the effect return a cleanup. The cleanup closure keeps \<open>roomData\<close> and the handler.
\<close>

datatype indicator_cleanup = IndicatorCleanup jsstring jsstring bool

definition indicatorEffect ::
  "ScarcityIndicatorProps \<Rightarrow> socket option \<Rightarrow> bool \<Rightarrow> socket option \<times> indicator_cleanup option" where
  "indicatorEffect props sock isConnected =
     (case sock of
        None \<Rightarrow> (None, None)
      | Some s \<Rightarrow>
          if isConnected then
            (Some (sock_on (js ''scarcity_update'')
                     (IndicatorHandleScarcityUpdate (p_artist props) (p_eventType props)
                        (has_onScarcityChange props))
                     (sock_emit (js ''join_scarcity_room'')
                        (RoomData (p_artist props) (p_eventType props)) s)),
             Some (IndicatorCleanup (p_artist props) (p_eventType props)
                     (has_onScarcityChange props)))
          else (Some s, None))"

fun runIndicatorCleanup :: "indicator_cleanup \<Rightarrow> socket \<Rightarrow> socket" where
  "runIndicatorCleanup (IndicatorCleanup a e cb) s =
     (if connected s then
        sock_emit (js ''leave_scarcity_room'') (RoomData a e)
          (sock_off (js ''scarcity_update'') (IndicatorHandleScarcityUpdate a e cb) s)
      else s)"

text \<open>
  Unmounting the indicator. React runs the cleanups of a component's effects in the
  order in which the effects are declared: first the cleanup of the effect inside
  \<open>useWebSocket\<close>, which is \<open>newSocket.disconnect()\<close>, then the cleanup of the scarcity
  effect, if the last run of that effect returned one.
\<close>

definition indicatorUnmount :: "indicator_cleanup option \<Rightarrow> socket \<Rightarrow> socket" where
  "indicatorUnmount cleanup s =
     (let s1 = sock_disconnect s in
      case cleanup of None \<Rightarrow> s1 | Some c \<Rightarrow> runIndicatorCleanup c s1)"




section \<open>String and number primitives\<close>

text \<open>
  \<open>String.prototype.trim\<close> strips the ECMAScript white space and line terminator
  code units from both ends.
\<close>

definition is_whitespace :: "16 word \<Rightarrow> bool" where
  "is_whitespace c \<longleftrightarrow>
     c \<in> {0x9, 0xA, 0xB, 0xC, 0xD, 0x20, 0xA0, 0x1680, 0x2028, 0x2029, 0x202F, 0x205F, 0x3000, 0xFEFF}
     \<or> (0x2000 \<le> c \<and> c \<le> 0x200A)"

definition js_trim :: "jsstring \<Rightarrow> jsstring" where
  "js_trim s = rev (dropWhile is_whitespace (rev (dropWhile is_whitespace s)))"

text \<open>
  \<open>s.substring(start, end)\<close>: both indices are clamped to \<open>[0, length]\<close> and swapped
  when \<open>start > end\<close>.
\<close>

definition js_substring :: "jsstring \<Rightarrow> int \<Rightarrow> int \<Rightarrow> jsstring" where
  "js_substring s start end =
     (let n = int (length s);
          a = min (max start 0) n;
          b = min (max end 0) n;
          from = min a b;
          to = max a b
      in take (nat (to - from)) (drop (nat from) s))"

text \<open>\<open>s.slice(-k)\<close> for a positive \<open>k\<close>: the last \<open>k\<close> code units, or all of \<open>s\<close>.\<close>

definition js_slice_last :: "jsstring \<Rightarrow> nat \<Rightarrow> jsstring" where
  "js_slice_last s k = drop (length s - k) s"

text \<open>
  \<open>padStart\<close> and \<open>padEnd\<close> with a one-unit fill string. The program calls \<open>padStart\<close>
  with the target lengths 2 and 16 only, which no engine's string limit forbids.
\<close>

definition js_padStart :: "jsstring \<Rightarrow> int \<Rightarrow> 16 word \<Rightarrow> jsstring" where
  "js_padStart s maxLength fill = replicate (nat maxLength - length s) fill @ s"

definition js_padEnd :: "jsstring \<Rightarrow> int \<Rightarrow> 16 word \<Rightarrow> jsstring" where
  "js_padEnd s maxLength fill = s @ replicate (nat maxLength - length s) fill"

fun js_join :: "jsstring \<Rightarrow> jsstring list \<Rightarrow> jsstring" where
  "js_join sep [] = []"
| "js_join sep [x] = x"
| "js_join sep (x # y # ys) = x @ sep @ js_join sep (y # ys)"

text \<open>
  \<open>n.toString(radix)\<close> on a non-negative integer: the digits, most significant
  first, as \<open>0-9a-z\<close>.
\<close>

function digits_of :: "nat \<Rightarrow> nat \<Rightarrow> nat list" where
  "digits_of radix n =
     (if radix < 2 \<or> n < radix then [n] else digits_of radix (n div radix) @ [n mod radix])"
  by pat_completeness auto
termination
  by (relation "measure snd") auto

declare digits_of.simps [simp del]

definition digit_char :: "nat \<Rightarrow> 16 word" where
  "digit_char d = (if d < 10 then of_nat (48 + d) else of_nat (87 + d))"

definition js_toString :: "nat \<Rightarrow> nat \<Rightarrow> jsstring" where
  "js_toString radix n = map digit_char (digits_of radix n)"

definition is_lower_hex :: "16 word \<Rightarrow> bool" where
  "is_lower_hex c \<longleftrightarrow> (0x30 \<le> c \<and> c \<le> 0x39) \<or> (0x61 \<le> c \<and> c \<le> 0x66)"

section \<open>Randomness and time\<close>

text \<open>
  The sources of randomness are inputs. \<open>crypto.getRandomValues\<close> fills an array from
  a stream of bytes; it throws when the crypto API is missing and, by the Web Crypto
  rule, when more than 65536 bytes are asked for. A value of \<open>Math.random()\<close> is given
  by what the program reads of it: the digits of its hexadecimal fraction (so that
  \<open>toString(16)\<close> is \<open>0\<close> or \<open>0.\<close> followed by them) and its \<open>toString(36)\<close> text.

  The engine that runs the page is an input too, in one respect: the longest string it
  builds. A string operation whose result would be longer throws a \<open>RangeError\<close>. The
  limit differs between engines (\<open>2^28 - 16\<close> and \<open>2^29 - 24\<close> code units in V8 on 32
  and 64 bit, more in others); it is given by how far it lies above \<open>2^28 - 16\<close>.
\<close>

record random_number =
  hex_fraction :: "4 word list"
  b36_text :: jsstring

record rng =
  crypto_available :: bool
  crypto_stream :: "nat \<Rightarrow> 8 word"
  math_stream :: "nat \<Rightarrow> random_number"
  string_headroom :: nat

definition max_string_length :: "rng \<Rightarrow> nat" where
  "max_string_length g = 2 ^ 28 - 16 + string_headroom g"

record axios_response =
  resp_status :: int
  resp_error :: "jsstring option"
  resp_message :: "jsstring option"

record axios_error =
  ax_message :: jsstring
  ax_code :: "jsstring option"
  ax_response :: "axios_response option"

text \<open>What a \<open>catch\<close> can receive: an axios error, another \<open>Error\<close>, or any other value.\<close>

datatype js_error = AxiosErr axios_error | ErrorObj jsstring | OtherThrown

definition getRandomValues :: "rng \<Rightarrow> nat \<Rightarrow> js_error + (8 word list \<times> rng)" where
  "getRandomValues g k =
     (if crypto_available g \<and> k \<le> 65536 then
        Inr (map (crypto_stream g) [0..<k], g\<lparr>crypto_stream := (\<lambda>i. crypto_stream g (i + k))\<rparr>)
      else Inl (ErrorObj (js ''crypto.getRandomValues failed'')))"

definition mathRandom :: "rng \<Rightarrow> random_number \<times> rng" where
  "mathRandom g = (math_stream g 0, g\<lparr>math_stream := (\<lambda>i. math_stream g (Suc i))\<rparr>)"

definition random_toString16 :: "random_number \<Rightarrow> jsstring" where
  "random_toString16 x =
     (if hex_fraction x = [] then js ''0''
      else js ''0.'' @ map (\<lambda>d. digit_char (unat d)) (hex_fraction x))"

section \<open>\<open>generateRandomHex\<close> and \<open>generateUniquenessFactors\<close>\<close>

definition byte_hex :: "8 word \<Rightarrow> jsstring" where
  "byte_hex b = js_padStart (js_toString 16 (unat b)) 2 0x30"

text \<open>The \<open>try\<close> block of \<open>generateRandomHex\<close>; \<open>Inl\<close> is a throw.\<close>

definition generateRandomHexTry :: "rng \<Rightarrow> int \<Rightarrow> js_error + (jsstring \<times> rng)" where
  "generateRandomHexTry g len =
     (if len \<le> 0 \<or> len mod 2 \<noteq> 0 then
        Inl (ErrorObj (js ''Length must be a positive even number''))
      else
        (case getRandomValues g (nat (len div 2)) of
           Inl e \<Rightarrow> Inl e
         | Inr (bytes, g') \<Rightarrow> Inr (concat (map byte_hex bytes), g')))"

text \<open>
  \<open>padEnd\<close> where the target length is an argument of the program: padding a string
  beyond the engine's limit throws.
\<close>

definition js_padEnd_checked :: "nat \<Rightarrow> jsstring \<Rightarrow> int \<Rightarrow> 16 word \<Rightarrow> js_error + jsstring" where
  "js_padEnd_checked limit s maxLength fill =
     (if length s < nat maxLength \<and> limit < nat maxLength then
        Inl (ErrorObj (js ''Invalid string length''))
      else Inr (js_padEnd s maxLength fill))"

text \<open>
  The whole function: the \<open>catch\<close> block computes the fallback from \<open>Math.random()\<close>.
  Nothing catches what the \<open>catch\<close> block itself throws.
\<close>

definition generateRandomHex :: "rng \<Rightarrow> int \<Rightarrow> js_error + (jsstring \<times> rng)" where
  "generateRandomHex g len =
     (case generateRandomHexTry g len of
        Inr r \<Rightarrow> Inr r
      | Inl error \<Rightarrow>
          (case mathRandom g of
             (x, g') \<Rightarrow>
               (case js_padEnd_checked (max_string_length g)
                       (js_substring (random_toString16 x) 2 (len + 2)) len 0x30 of
                  Inl thrown \<Rightarrow> Inl thrown
                | Inr s \<Rightarrow> Inr (s, g'))))"

record WalletInfo =
  principal :: jsstring
  accountId :: jsstring
  isConnected :: bool
  balance :: "int option"

record UniquenessFactors =
  location_hash :: jsstring
  timestamp_seed :: jsstring
  wallet_entropy :: jsstring
  wallet_principal :: "jsstring option"
  wallet_account_id :: "jsstring option"
  biometric_opt_in :: bool
  biometric_hash :: "jsstring option"

text \<open>\<open>x || null\<close> on an optional string.\<close>

definition or_null :: "jsstring option \<Rightarrow> jsstring option" where
  "or_null x = (case x of None \<Rightarrow> None | Some s \<Rightarrow> if s = [] then None else Some s)"

text \<open>
  The \<open>try\<close> block of \<open>generateUniquenessFactors\<close>; \<open>now\<close> is \<open>Date.now()\<close> in
  milliseconds.
\<close>

definition generateUniquenessFactorsTry ::
  "rng \<Rightarrow> nat \<Rightarrow> WalletInfo option \<Rightarrow> js_error + (UniquenessFactors \<times> rng)" where
  "generateUniquenessFactorsTry g now walletInfo =
     (case generateRandomHex g 16 of
        Inl e \<Rightarrow> Inl e
      | Inr (locationHash, g1) \<Rightarrow>
          (let timestampSeed = js_toString 10 (now div 1000);
               entropy =
                 (case walletInfo of
                    None \<Rightarrow> generateRandomHex g1 16
                  | Some w \<Rightarrow>
                      if principal w \<noteq> [] then
                        Inr (js_padStart (js_slice_last (principal w) 16) 16 0x30, g1)
                      else generateRandomHex g1 16)
           in case entropy of
                Inl e \<Rightarrow> Inl e
              | Inr (walletEntropy, g2) \<Rightarrow>
                  Inr (\<lparr>location_hash = locationHash,
                        timestamp_seed = timestampSeed,
                        wallet_entropy = walletEntropy,
                        wallet_principal = or_null (map_option principal walletInfo),
                        wallet_account_id = or_null (map_option accountId walletInfo),
                        biometric_opt_in = False,
                        biometric_hash = None\<rparr>, g2)))"

definition generateUniquenessFactors ::
  "rng \<Rightarrow> nat \<Rightarrow> WalletInfo option \<Rightarrow> UniquenessFactors \<times> rng" where
  "generateUniquenessFactors g now walletInfo =
     (case generateUniquenessFactorsTry g now walletInfo of
        Inr r \<Rightarrow> r
      | Inl error \<Rightarrow>
          (case mathRandom g of
             (x1, g1) \<Rightarrow>
               (case mathRandom g1 of
                  (x2, g2) \<Rightarrow>
                    (\<lparr>location_hash = js_substring (b36_text x1) 2 18,
                      timestamp_seed = js_toString 10 (now div 1000),
                      wallet_entropy = js_substring (b36_text x2) 2 18,
                      wallet_principal = or_null (map_option principal walletInfo),
                      wallet_account_id = or_null (map_option accountId walletInfo),
                      biometric_opt_in = False,
                      biometric_hash = None\<rparr>, g2))))"

section \<open>Errors and state of the main page\<close>

record APIError =
  message :: jsstring
  status :: "int option"
  code :: "jsstring option"

definition createAPIError :: "js_error \<Rightarrow> jsstring \<Rightarrow> APIError" where
  "createAPIError err ctx =
     (case err of
        AxiosErr axiosError \<Rightarrow>
          \<lparr>message =
             or_str (case ax_response axiosError of None \<Rightarrow> None | Some r \<Rightarrow> resp_error r)
               (or_str (case ax_response axiosError of None \<Rightarrow> None | Some r \<Rightarrow> resp_message r)
                 (or_str (Some (ax_message axiosError))
                   (js ''Network error occurred while '' @ ctx))),
           status = map_option resp_status (ax_response axiosError),
           code = ax_code axiosError\<rparr>
      | ErrorObj m \<Rightarrow> \<lparr>message = m @ js '' while '' @ ctx, status = None, code = None\<rparr>
      | OtherThrown \<Rightarrow>
          \<lparr>message = js ''Unknown error occurred while '' @ ctx, status = None, code = None\<rparr>)"

record GeneticTraits =
  luminosity :: rat
  architectural_complexity :: rat
  ethereal_quality :: rat
  evolution_speed :: rat
  style_intensity :: rat
  temporal_resonance :: rat

record EvolutionEntry =
  ev_version :: jsstring
  ev_timestamp :: int
  prompt_used :: jsstring
  ev_image_url :: jsstring
  traits_changed :: "jsstring list"
  ev_event :: jsstring

text \<open>
  \<open>NFTData\<close>. The fields \<open>id\<close>, \<open>artist\<close>, \<open>event_type\<close> and \<open>scarcity_info\<close> carry the
  prefix \<open>nd_\<close>, their names being taken already.
\<close>

record NFTData =
  nd_id :: jsstring
  image_uri :: jsstring
  nd_artist :: jsstring
  nd_event_type :: jsstring
  version :: int
  timestamp :: int
  genetic_traits :: GeneticTraits
  nd_scarcity_info :: ScarcityInfo
  prompt :: jsstring
  evolution_history :: "EvolutionEntry list"
  evolution_period_days :: int

datatype mode = Basic | Advanced

datatype toast = ToastSuccess jsstring | ToastError jsstring

text \<open>
  The \<open>useState\<close> cells of \<open>Index\<close> that the functions below read or write, with the
  toasts shown and the \<open>setTimeout\<close> delays scheduled for \<open>fetchInitialData(true)\<close>.
\<close>

record page_state =
  mode :: mode
  customPrompt :: jsstring
  selectedArtist :: jsstring
  selectedEvent :: jsstring
  nftResult :: "NFTData option"
  evolutionPeriod :: int
  wallet :: "WalletInfo option"
  loading_initialData :: bool
  loading_nftGeneration :: bool
  err_initialization :: "APIError option"
  err_nftGeneration :: "APIError option"
  err_validation :: "jsstring option"
  artists :: "jsstring list"
  events :: "jsstring list"
  retryCount :: nat
  allCombinationsScarcity :: "CombinationScarcityAPI list"
  toasts :: "toast list"
  timers :: "nat list"

definition initial_page_state :: page_state where
  "initial_page_state =
     \<lparr>mode = Basic, customPrompt = [], selectedArtist = [], selectedEvent = [], nftResult = None,
      evolutionPeriod = 30, wallet = None, loading_initialData = False,
      loading_nftGeneration = False, err_initialization = None, err_nftGeneration = None,
      err_validation = None, artists = [], events = [], retryCount = 0,
      allCombinationsScarcity = [], toasts = [], timers = []\<rparr>"

section \<open>Form validation\<close>

definition getScarcityForCombination ::
  "CombinationScarcityAPI list \<Rightarrow> jsstring \<Rightarrow> jsstring \<Rightarrow> ScarcityInfo option" where
  "getScarcityForCombination combos a eventType =
     (if combos = [] then None
      else map_option scarcity_info
             (find (\<lambda>combo. artist combo = a \<and> event_type combo = eventType) combos))"

definition validateForm :: "page_state \<Rightarrow> jsstring option" where
  "validateForm st =
     (if wallet st = None then Some (js ''Please connect your wallet to generate NFTs'')
      else if mode st = Basic then
        (if selectedArtist st = [] then Some (js ''Please select an artist'')
         else if selectedEvent st = [] then Some (js ''Please select an event'')
         else
           (case getScarcityForCombination (allCombinationsScarcity st)
                   (selectedArtist st) (selectedEvent st) of
              Some selectedComboScarcity \<Rightarrow>
                if is_sold_out selectedComboScarcity then
                  Some (js ''The '' @ selectedArtist st @ js '' - '' @ selectedEvent st
                        @ js '' combination is currently sold out.'')
                else None
            | None \<Rightarrow> None))
      else
        (if js_trim (customPrompt st) = [] then Some (js ''Please enter a custom prompt'')
         else if length (js_trim (customPrompt st)) < 10 then
           Some (js ''Custom prompt must be at least 10 characters long'')
         else if length (js_trim (customPrompt st)) > 500 then
           Some (js ''Custom prompt must be less than 500 characters'')
         else None))"

section \<open>Initial data fetch and its retry\<close>

text \<open>
  What the two \<open>axios.get\<close> calls of \<open>fetchInitialData\<close> come to: both resolved, with
  the \<open>artists\<close> and \<open>events\<close> arrays of the responses (\<open>None\<close> when the field is missing
  or not an array), or a rejection.
\<close>

datatype fetch_outcome =
    FetchResolved "jsstring list option" "jsstring list option"
  | FetchRejected js_error

definition initializationError :: "js_error \<Rightarrow> APIError" where
  "initializationError err =
     (case err of
        AxiosErr e \<Rightarrow>
          if ax_code e = Some (js ''ECONNABORTED'') then
            \<lparr>message = js ''Request timed out. Please check your connection and try again.'',
             status = None, code = Some (js ''TIMEOUT'')\<rparr>
          else createAPIError err (js ''loading initial data'')
      | _ \<Rightarrow> createAPIError err (js ''loading initial data''))"

definition fetchInitialData :: "bool \<Rightarrow> fetch_outcome \<Rightarrow> page_state \<Rightarrow> page_state" where
  "fetchInitialData isRetry outcome st =
     (let st1 = (if \<not> isRetry then st\<lparr>loading_initialData := True\<rparr> else st);
          st2 = st1\<lparr>err_initialization := None\<rparr>;
          failed = (\<lambda>err. st2\<lparr>err_initialization := Some (initializationError err)\<rparr>);
          st3 =
            (case outcome of
               FetchRejected err \<Rightarrow> failed err
             | FetchResolved None _ \<Rightarrow>
                 failed (ErrorObj (js ''Invalid artists data received from server''))
             | FetchResolved (Some as) None \<Rightarrow>
                 failed (ErrorObj (js ''Invalid events data received from server''))
             | FetchResolved (Some as) (Some es) \<Rightarrow>
                 st2\<lparr>artists := as, events := es,
                     selectedArtist := (case as of [] \<Rightarrow> selectedArtist st2 | x # _ \<Rightarrow> x),
                     selectedEvent := (case es of [] \<Rightarrow> selectedEvent st2 | x # _ \<Rightarrow> x),
                     retryCount := 0\<rparr>)
      in st3\<lparr>loading_initialData := False\<rparr>)"

definition retryFetchInitialData :: "page_state \<Rightarrow> page_state" where
  "retryFetchInitialData st =
     (let newRetryCount = retryCount st + 1;
          delay = min (1000 * 2 ^ (newRetryCount - 1)) 5000
      in st\<lparr>retryCount := newRetryCount, timers := timers st @ [delay]\<rparr>)"

text \<open>
  What happens to the page between renders, as far as the retry count goes: the retry
  button is pressed, or a call of \<open>fetchInitialData\<close> completes.
\<close>

datatype init_event = RetryPressed | FetchCompleted bool fetch_outcome

fun init_step :: "page_state \<Rightarrow> init_event \<Rightarrow> page_state" where
  "init_step st RetryPressed = retryFetchInitialData st"
| "init_step st (FetchCompleted isRetry outcome) = fetchInitialData isRetry outcome st"

fun fetch_succeeded :: "init_event \<Rightarrow> bool" where
  "fetch_succeeded (FetchCompleted _ (FetchResolved (Some _) (Some _))) = True"
| "fetch_succeeded _ = False"

text \<open>The number of retry presses since the last successful fetch of a history.\<close>

definition retries_since_success :: "init_event list \<Rightarrow> nat" where
  "retries_since_success evs =
     length (filter (\<lambda>ev. ev = RetryPressed)
               (takeWhile (\<lambda>ev. \<not> fetch_succeeded ev) (rev evs)))"

section \<open>NFT generation\<close>

text \<open>
  The NFT object of a \<open>create-nft\<close> response; every field may be missing. A missing
  field reads as \<open>undefined\<close>.
\<close>

record nft_json =
  r_nft_id :: "jsstring option"
  r_image_url :: "jsstring option"
  r_image_uri :: "jsstring option"
  r_artist :: "jsstring option"
  r_event_type :: "jsstring option"
  r_version :: "int option"
  r_timestamp :: "int option"
  r_genetic_traits :: "GeneticTraits option"
  r_scarcity_info :: "ScarcityInfo option"
  r_prompt :: "jsstring option"
  r_evolution_history :: "EvolutionEntry list option"
  r_evolution_period_days :: "int option"

text \<open>
  \<open>response.data\<close> when it is an object: whether it has the key \<open>nft_id\<close>, its own
  fields read as an NFT, the objects under its keys \<open>nft\<close>, \<open>data\<close> and \<open>result\<close>, and
  its keys.
\<close>

record response_data =
  has_nft_id :: bool
  top_level :: nft_json
  data_nft :: "nft_json option"
  data_data :: "nft_json option"
  data_result :: "nft_json option"
  data_keys :: "jsstring list"

record create_request =
  req_mode :: jsstring
  req_artist :: jsstring
  req_event_type :: jsstring
  req_owner_address :: jsstring
  req_user_prompt :: "jsstring option"
  req_uniqueness_factors :: UniquenessFactors
  req_evolution_period_days :: int

datatype post_outcome = PostResolved "response_data option" | PostRejected js_error

text \<open>An optional string inside a template literal.\<close>

definition template_str :: "jsstring option \<Rightarrow> jsstring" where
  "template_str x = (case x of None \<Rightarrow> js ''undefined'' | Some s \<Rightarrow> s)"

text \<open>
  The choice of the NFT object. Every branch that finds one finds an object, so the
  later check \<open>if (!nft)\<close> never throws; the check of \<open>requiredFields\<close> only logs.
\<close>

definition parseNftResponse :: "response_data option \<Rightarrow> js_error + nft_json" where
  "parseNftResponse d =
     (case d of
        None \<Rightarrow>
          Inl (ErrorObj (js ''Server returned unexpected response format. Response keys: ''))
      | Some r \<Rightarrow>
          if has_nft_id r then Inr (top_level r)
          else
            (case data_nft r of
               Some n \<Rightarrow> Inr n
             | None \<Rightarrow>
                 (case data_data r of
                    Some n \<Rightarrow> Inr n
                  | None \<Rightarrow>
                      (case data_result r of
                         Some n \<Rightarrow> Inr n
                       | None \<Rightarrow>
                           Inl (ErrorObj
                                  (js ''Server returned unexpected response format. Response keys: ''
                                   @ js_join (js '', '') (data_keys r)))))))"

text \<open>
  The object literal \<open>nftData\<close>, field by field; \<open>now\<close> is \<open>Date.now()\<close> in
  milliseconds.
\<close>

definition buildNftData :: "nat \<Rightarrow> page_state \<Rightarrow> nft_json \<Rightarrow> NFTData" where
  "buildNftData now st nft =
     \<lparr>nd_id = or_str (r_nft_id nft) (js ''nft-'' @ js_toString 10 now),
      image_uri =
        or_str (Some (js ''http://localhost:5000'' @ template_str (r_image_url nft)))
          (or_str (r_image_uri nft) []),
      nd_artist = or_str (r_artist nft) (or_str (Some (selectedArtist st)) (js ''Unknown Artist'')),
      nd_event_type =
        or_str (r_event_type nft) (or_str (Some (selectedEvent st)) (js ''Unknown Event'')),
      version = or_num_opt (r_version nft) 1,
      timestamp = or_num_opt (r_timestamp nft) (int (now div 1000)),
      genetic_traits =
        (case r_genetic_traits nft of
           Some t \<Rightarrow> t
         | None \<Rightarrow>
             \<lparr>luminosity = 0, architectural_complexity = 0, ethereal_quality = 0,
              evolution_speed = 0, style_intensity = 0, temporal_resonance = 0\<rparr>),
      nd_scarcity_info =
        (case r_scarcity_info nft of
           Some i \<Rightarrow> i
         | None \<Rightarrow>
             \<lparr>combination = [], total_limit = Fin 0, minted_count = Fin 0, rarity_score = 0,
              price_multiplier = 0, is_sold_out = False, remaining_slots = Some (Fin 0),
              total_supply = None\<rparr>),
      prompt =
        or_str (r_prompt nft)
          (if mode st = Advanced then customPrompt st
           else selectedArtist st @ js '' style '' @ selectedEvent st),
      evolution_history = (case r_evolution_history nft of Some h \<Rightarrow> h | None \<Rightarrow> []),
      evolution_period_days = or_num_opt (r_evolution_period_days nft) (evolutionPeriod st)\<rparr>"

text \<open>
  The \<open>try\<close> block of \<open>handleUpdatePreview\<close>, entered with a connected wallet \<open>w\<close>; the
  server is a function from the request to what \<open>axios.post\<close> comes to.
\<close>

definition generationTry ::
  "rng \<Rightarrow> nat \<Rightarrow> (create_request \<Rightarrow> post_outcome) \<Rightarrow> WalletInfo \<Rightarrow> page_state \<Rightarrow> js_error + NFTData" where
  "generationTry g now server w st =
     (let ownerAddress = or_str (Some (principal w)) (accountId w) in
      if ownerAddress = [] then
        Inl (ErrorObj (js ''Invalid wallet information - no principal or account ID available''))
      else
        (let requestData =
               \<lparr>req_mode = (if mode st = Basic then js ''selection'' else js ''prompt''),
                req_artist = or_str (Some (selectedArtist st)) (js ''Da Vinci''),
                req_event_type = or_str (Some (selectedEvent st)) (js ''architecture''),
                req_owner_address = ownerAddress,
                req_user_prompt =
                  (if mode st = Advanced then Some (js_trim (customPrompt st)) else None),
                req_uniqueness_factors = fst (generateUniquenessFactors g now (Some w)),
                req_evolution_period_days = evolutionPeriod st\<rparr>
         in if req_artist requestData = [] \<or> req_event_type requestData = [] then
              Inl (ErrorObj (js ''Missing required fields for NFT generation''))
            else
              (case server requestData of
                 PostRejected err \<Rightarrow> Inl err
               | PostResolved d \<Rightarrow>
                   (case parseNftResponse d of
                      Inl err \<Rightarrow> Inl err
                    | Inr nft \<Rightarrow> Inr (buildNftData now st nft)))))"

text \<open>The \<open>catch\<close> block's choice of the error stored under \<open>nftGeneration\<close>.\<close>

definition generationError :: "js_error \<Rightarrow> APIError" where
  "generationError err =
     (case err of
        AxiosErr e \<Rightarrow>
          if ax_code e = Some (js ''ECONNABORTED'') then
            \<lparr>message = js ''NFT generation timed out. The server may be busy, please try again.'',
             status = None, code = Some (js ''TIMEOUT'')\<rparr>
          else if map_option resp_status (ax_response e) = Some 429 then
            \<lparr>message = js ''Too many requests. Please wait a moment before trying again.'',
             status = Some 429, code = Some (js ''RATE_LIMIT'')\<rparr>
          else if map_option resp_status (ax_response e) = Some 500 then
            \<lparr>message = js ''Server error occurred during NFT generation. Please try again.'',
             status = Some 500, code = Some (js ''SERVER_ERROR'')\<rparr>
          else createAPIError err (js ''generating NFT'')
      | _ \<Rightarrow> createAPIError err (js ''generating NFT''))"

definition handleUpdatePreview ::
  "rng \<Rightarrow> nat \<Rightarrow> (create_request \<Rightarrow> post_outcome) \<Rightarrow> page_state \<Rightarrow> page_state" where
  "handleUpdatePreview g now server st =
     (let st1 = st\<lparr>err_nftGeneration := None, err_validation := None\<rparr> in
      case wallet st of
        None \<Rightarrow> st1\<lparr>err_validation := Some (js ''Please connect your wallet to generate NFTs'')\<rparr>
      | Some w \<Rightarrow>
          (case validateForm st of
             Some validationError \<Rightarrow> st1\<lparr>err_validation := Some validationError\<rparr>
           | None \<Rightarrow>
               (let st2 = st1\<lparr>loading_nftGeneration := True\<rparr>;
                    st3 =
                      (case generationTry g now server w st of
                         Inr nftData \<Rightarrow>
                           st2\<lparr>nftResult := Some nftData,
                               toasts := toasts st2 @ [ToastSuccess (js ''NFT generated successfully!'')]\<rparr>
                       | Inl err \<Rightarrow>
                           st2\<lparr>err_nftGeneration := Some (generationError err),
                               toasts := toasts st2 @ [ToastError (js ''Failed to generate NFT.'')]\<rparr>)
                in st3\<lparr>loading_nftGeneration := False\<rparr>)))"

text \<open>What no handler ever changes in a combination: its key and its limit.\<close>

definition combo_key :: "CombinationScarcityAPI \<Rightarrow> jsstring \<times> jsstring \<times> jsnum" where
  "combo_key c = (artist c, event_type c, total_limit (scarcity_info c))"

section \<open>Example data\<close>

definition combo_ex :: CombinationScarcityAPI where
  "combo_ex = \<lparr>artist = js ''Monet'', event_type = js ''sunrise'', is_available = True,
     scarcity_info = \<lparr>combination = js ''Monet-sunrise'', total_limit = Fin 10,
        minted_count = Fin 9, rarity_score = 1, price_multiplier = 1, is_sold_out = False,
        remaining_slots = Some (Fin 1), total_supply = None\<rparr>,
     waitlist_count = 0, estimated_availability = js ''now'', combo_price_multiplier = 1\<rparr>"

definition combo_big :: CombinationScarcityAPI where
  "combo_big = combo_ex\<lparr>scarcity_info := (scarcity_info combo_ex)
     \<lparr>total_limit := Fin 9007199254740994, minted_count := Fin 9007199254740992,
      remaining_slots := Some (Fin 2)\<rparr>\<rparr>"

definition combo_other :: CombinationScarcityAPI where
  "combo_other = combo_ex\<lparr>artist := js ''Dali''\<rparr>"

definition mint_ex :: NewMintMessage where
  "mint_ex = \<lparr>nm_nft_id = js ''nft-1'', nm_name = js ''First'', nm_image_url = js ''/img/1.png'',
     nm_artist = js ''Monet'', nm_event_type = js ''sunrise'', nm_owner_address = js ''abcde-fghij'',
     nm_canister_id = js ''c1'', nm_timestamp = 0\<rparr>"

definition combo_unset :: CombinationScarcityAPI where
  "combo_unset = combo_ex\<lparr>scarcity_info := (scarcity_info combo_ex)\<lparr>remaining_slots := None\<rparr>\<rparr>"

definition upd_ex :: ScarcityUpdateMessage where
  "upd_ex = \<lparr>su_artist = js ''Monet'', su_event_type = js ''sunrise'', su_remaining_slots = Fin 5,
     su_total_supply = Fin 20, su_is_available = True, su_timestamp = 0\<rparr>"


definition upd_ok :: ScarcityUpdateMessage where
  "upd_ok = upd_ex\<lparr>su_total_supply := Fin 10\<rparr>"

definition upd_flag :: ScarcityUpdateMessage where
  "upd_flag = upd_ok\<lparr>su_is_available := False\<rparr>"

definition props_ex :: ScarcityIndicatorProps where
  "props_ex = \<lparr>p_artist = js ''Monet'', p_eventType = js ''sunrise'', initialTotalSupply = Fin 10,
     initialRemainingSlots = Fin 1, has_onScarcityChange = True\<rparr>"



definition sock_joined_ex :: socket where
  "sock_joined_ex =
     \<lparr>connected = True,
      listeners = [(js ''scarcity_update'',
                    IndicatorHandleScarcityUpdate (js ''Monet'') (js ''sunrise'') True)],
      emitted = [(js ''join_scarcity_room'', RoomData (js ''Monet'') (js ''sunrise''))]\<rparr>"


definition rng_ex :: rng where
  "rng_ex = \<lparr>crypto_available = True, crypto_stream = (\<lambda>i. of_nat (i * 171 + 5)),
     math_stream = (\<lambda>i. \<lparr>hex_fraction = [10, 3, 15], b36_text = js ''0.k3x''\<rparr>),
     string_headroom = 268435448\<rparr>"

definition wallet_ex :: WalletInfo where
  "wallet_ex = \<lparr>principal = js ''abcde-fghij'', accountId = js ''acc-1'', isConnected = True,
     balance = None\<rparr>"

definition wallet_noacct :: WalletInfo where
  "wallet_noacct = wallet_ex\<lparr>accountId := []\<rparr>"

definition combo_sold :: CombinationScarcityAPI where
  "combo_sold = combo_ex\<lparr>is_available := False,
     scarcity_info := (scarcity_info combo_ex)
       \<lparr>minted_count := Fin 10, remaining_slots := Some (Fin 0), is_sold_out := True\<rparr>\<rparr>"

definition combo_other_sold :: CombinationScarcityAPI where
  "combo_other_sold = combo_sold\<lparr>artist := js ''Dali''\<rparr>"

definition form_ex :: page_state where
  "form_ex = initial_page_state\<lparr>wallet := Some wallet_ex, selectedArtist := js ''Monet'',
     selectedEvent := js ''sunrise''\<rparr>"

definition history_ex :: "init_event list" where
  "history_ex = [FetchCompleted False (FetchRejected OtherThrown), RetryPressed, RetryPressed,
     FetchCompleted True (FetchRejected OtherThrown), RetryPressed]"

definition rejected_429 :: js_error where
  "rejected_429 = AxiosErr \<lparr>ax_message = js ''Request failed with status code 429'',
     ax_code = Some (js ''ERR_BAD_REQUEST''),
     ax_response = Some \<lparr>resp_status = 429, resp_error = None, resp_message = None\<rparr>\<rparr>"

definition rejected_timeout :: js_error where
  "rejected_timeout = AxiosErr \<lparr>ax_message = js ''timeout of 25000ms exceeded'',
     ax_code = Some (js ''ECONNABORTED''), ax_response = None\<rparr>"

definition rejected_404 :: js_error where
  "rejected_404 = AxiosErr \<lparr>ax_message = js ''Request failed with status code 404'',
     ax_code = Some (js ''ERR_BAD_REQUEST''),
     ax_response = Some \<lparr>resp_status = 404, resp_error = Some (js ''No such artist''),
        resp_message = None\<rparr>\<rparr>"

definition nft_no_image :: nft_json where
  "nft_no_image = \<lparr>r_nft_id = Some (js ''nft-42''), r_image_url = None,
     r_image_uri = Some (js ''ipfs://art''), r_artist = None, r_event_type = None,
     r_version = None, r_timestamp = None, r_genetic_traits = None, r_scarcity_info = None,
     r_prompt = None, r_evolution_history = None, r_evolution_period_days = None\<rparr>"

section \<open>Rounding to a double\<close>

lemma bit_length_bounds: "0 < n \<Longrightarrow> 2 ^ (bit_length n - 1) \<le> n \<and> n < 2 ^ bit_length n"
proof (induction n rule: bit_length.induct)
  case (1 n)
  show ?case
  proof (cases "n div 2 = 0")
    case True
    with 1(2) have "n = Suc 0" by (auto simp: div_eq_0_iff)
    then show ?thesis
      by (simp add: bit_length.simps [of "Suc 0"] bit_length.simps [of 0])
  next
    case False
    with 1 have ih: "2 ^ (bit_length (n div 2) - 1) \<le> n div 2 \<and> n div 2 < 2 ^ bit_length (n div 2)"
      by simp
    from False have pos: "0 < bit_length (n div 2)"
      by (simp add: bit_length.simps [of "n div 2"])
    have b: "bit_length n = Suc (bit_length (n div 2))"
      using 1(2) by (simp add: bit_length.simps [of n])
    from pos obtain j where j: "bit_length (n div 2) = Suc j" by (cases "bit_length (n div 2)") auto
    from ih j have "2 ^ j \<le> n div 2" "n div 2 < 2 ^ Suc j" by simp_all
    then have "2 * 2 ^ j \<le> n" "n < 2 * 2 ^ Suc j" by auto
    with b j show ?thesis by simp
  qed
qed

lemma bit_length_greater: "(2::nat) ^ p \<le> n \<Longrightarrow> p < bit_length n"
proof -
  assume a: "(2::nat) ^ p \<le> n"
  then have pos: "0 < n" by (metis less_le_trans zero_less_numeral zero_less_power)
  from bit_length_bounds [OF pos] have "n < 2 ^ bit_length n" by simp
  with a have "(2::nat) ^ p < 2 ^ bit_length n" by (rule le_less_trans)
  then show ?thesis by (rule power_less_imp_less_exp [rotated]) simp
qed

lemma bit_length_unique: "(2::nat) ^ k \<le> n \<Longrightarrow> n < 2 ^ Suc k \<Longrightarrow> bit_length n = Suc k"
proof -
  assume a: "(2::nat) ^ k \<le> n" and b: "n < 2 ^ Suc k"
  then have pos: "0 < n" by (metis less_le_trans zero_less_numeral zero_less_power)
  from bit_length_bounds [OF pos] have "2 ^ (bit_length n - 1) \<le> n" by simp
  from this b have "(2::nat) ^ (bit_length n - 1) < 2 ^ Suc k" by (rule le_less_trans)
  then have "bit_length n - 1 < Suc k" by (rule power_less_imp_less_exp [rotated]) simp
  with bit_length_greater [OF a] show ?thesis by simp
qed

lemma round_nat_large: "2 ^ 53 \<le> n \<Longrightarrow> 2 ^ 53 \<le> round_nat n"
proof -
  assume n: "2 ^ 53 \<le> n"
  then have pos: "0 < n" by (metis less_le_trans zero_less_numeral zero_less_power)
  define k where "k = bit_length n - 53"
  from bit_length_bounds [OF pos] have l: "2 ^ (bit_length n - 1) \<le> n" by simp
  from bit_length_greater [OF n] have k: "bit_length n - 1 = 52 + k" "1 \<le> k" by (simp_all add: k_def)
  define q where "q = n div 2 ^ k"
  from l k have "(2::nat) ^ (52 + k) \<le> n" by simp
  then have "(2::nat) ^ 52 * 2 ^ k \<le> n" by (simp only: power_add)
  then have "(2::nat) ^ 52 * 2 ^ k div 2 ^ k \<le> n div 2 ^ k" by (rule div_le_mono)
  then have q: "(2::nat) ^ 52 \<le> q" by (simp add: q_def)
  have "(2::nat) ^ 1 \<le> 2 ^ k" using k(2) by (intro power_increasing) simp_all
  then have two: "(2::nat) \<le> 2 ^ k" by simp
  have "(2::nat) ^ 53 = 2 ^ 52 * 2" by simp
  also have "\<dots> \<le> q * 2 ^ k" using q two by (rule mult_le_mono)
  finally have base: "(2::nat) ^ 53 \<le> q * 2 ^ k" .
  also have "\<dots> \<le> (q + 1) * 2 ^ k" by simp
  finally have up: "(2::nat) ^ 53 \<le> (q + 1) * 2 ^ k" .
  have "round_nat n = (if n mod 2 ^ k > 2 ^ (k - 1) \<or> (n mod 2 ^ k = 2 ^ (k - 1) \<and> odd q) then q + 1 else q) * 2 ^ k"
    using n by (simp add: round_nat_def Let_def k_def [symmetric] q_def [symmetric])
  with base up show ?thesis by (simp split: if_splits)
qed

lemma round_nat_small: "round_nat n < 2 ^ 53 \<Longrightarrow> round_nat n = n"
  using round_nat_large [of n] by (cases "n < 2 ^ 53") (simp_all add: round_nat_def)


lemma js_round_safe: "js_round x = Fin y \<Longrightarrow> \<bar>y\<bar> < 2 ^ 53 \<Longrightarrow> y = x"
proof -
  assume r: "js_round x = Fin y" and y: "\<bar>y\<bar> < 2 ^ 53"
  from r have "\<bar>y\<bar> = int (round_nat (nat \<bar>x\<bar>))"
    by (auto simp: js_round_def Let_def split: if_splits)
  with y have "round_nat (nat \<bar>x\<bar>) < 2 ^ 53" by (simp add: nat_less_iff)
  then have "round_nat (nat \<bar>x\<bar>) = nat \<bar>x\<bar>" by (rule round_nat_small)
  with r show ?thesis by (auto simp: js_round_def Let_def split: if_splits)
qed

lemma bit_length_54:
  "bit_length 9007199254740992 = 54" "bit_length 9007199254740993 = 54"
  "bit_length 9007199254740994 = 54"
  by (rule bit_length_unique [where k = 53, simplified]; simp)+


section \<open>The \<open>new_mint\<close> handler\<close>







section \<open>The \<open>scarcity_update\<close> handlers\<close>





section \<open>Consistency of the scarcity fields over the reachable states\<close>

lemma safe_integer_Fin: "safe_integer x \<Longrightarrow> \<exists>v. x = Fin v \<and> \<bar>v\<bar> < 2 ^ 53"
  by (cases x) simp_all

lemma js_add_Fin: "js_add a b = Fin y \<Longrightarrow> \<exists>x z. a = Fin x \<and> b = Fin z"
  by (cases a; cases b) simp_all

lemma js_add_safe:
  "safe_integer (js_add a (Fin z)) \<Longrightarrow> \<exists>x. a = Fin x \<and> js_add a (Fin z) = Fin (x + z)"
proof -
  assume s: "safe_integer (js_add a (Fin z))"
  then obtain y where y: "js_add a (Fin z) = Fin y" "\<bar>y\<bar> < 2 ^ 53"
    using safe_integer_Fin by blast
  then obtain x where x: "a = Fin x" using js_add_Fin by blast
  with y have "js_round (x + z) = Fin y" by simp
  from js_round_safe [OF this y(2)] x y show ?thesis by simp
qed

lemma js_sub_safe:
  "safe_integer (js_sub (Fin x) b) \<Longrightarrow> \<exists>z. b = Fin z \<and> js_sub (Fin x) b = Fin (x - z)"
proof -
  assume s: "safe_integer (js_sub (Fin x) b)"
  then obtain y where y: "js_sub (Fin x) b = Fin y" "\<bar>y\<bar> < 2 ^ 53"
    using safe_integer_Fin by blast
  then obtain z where z: "b = Fin z" by (cases b) (simp_all add: js_sub_def)
  with y have "js_round (x - z) = Fin y" by (simp add: js_sub_def)
  from js_round_safe [OF this y(2)] z y show ?thesis by simp
qed

lemma newMintCombo_consistent:
  assumes "artist c = nm_artist d \<and> event_type c = nm_event_type d"
    and "safe_counts (newMintCombo d c)"
  shows "scarcity_consistent (newMintCombo d c)"
proof -
  define a where "a = js_or (minted_count (scarcity_info c)) (Fin 0)"
  define m' where "m' = js_add a (Fin 1)"
  define r' where "r' = js_sub (js_or (total_limit (scarcity_info c)) (Fin 0)) m'"
  have new: "newMintCombo d c =
      c\<lparr>scarcity_info := (scarcity_info c)
           \<lparr>minted_count := m', remaining_slots := Some r', is_sold_out := js_le0 r'\<rparr>,
         is_available := js_gt0 r'\<rparr>"
    using assms(1) by (simp add: newMintCombo_def Let_def a_def m'_def r'_def)
  from assms(2) have s: "safe_integer (total_limit (scarcity_info c))" "safe_integer m'" "safe_integer r'"
    by (simp_all add: new safe_counts_def)
  from s(1) obtain t where t: "total_limit (scarcity_info c) = Fin t" using safe_integer_Fin by blast
  from s(2) obtain x where x: "m' = Fin (x + 1)" unfolding m'_def using js_add_safe by blast
  have "js_or (Fin t) (Fin 0) = Fin t" by simp
  with s(3) t x have "r' = Fin (t - (x + 1))"
    unfolding r'_def using js_sub_safe [of t "Fin (x + 1)"] by simp
  with t x show ?thesis
    unfolding new by (simp add: scarcity_consistent_def)
qed

lemma scarcityChangeCombo_consistent:
  assumes "artist c = a \<and> event_type c = e"
    and "safe_counts (scarcityChangeCombo a e r c)"
  shows "scarcity_consistent (scarcityChangeCombo a e r c)"
proof -
  define m' where "m' = js_sub (js_or (total_limit (scarcity_info c)) (Fin 0)) r"
  have new: "scarcityChangeCombo a e r c =
      c\<lparr>scarcity_info := (scarcity_info c)
           \<lparr>minted_count := m', remaining_slots := Some r, is_sold_out := js_le0 r\<rparr>,
         is_available := js_gt0 r\<rparr>"
    using assms(1) by (simp add: scarcityChangeCombo_def Let_def m'_def)
  from assms(2) have s: "safe_integer (total_limit (scarcity_info c))" "safe_integer m'" "safe_integer r"
    by (simp_all add: new safe_counts_def)
  from s(1) obtain t where t: "total_limit (scarcity_info c) = Fin t" using safe_integer_Fin by blast
  have o: "js_or (Fin t) (Fin 0) = Fin t" by simp
  from s(2) t o obtain z where z: "r = Fin z" "m' = Fin (t - z)"
    unfolding m'_def using js_sub_safe [of t r] by auto
  with t show ?thesis
    unfolding new by (simp add: scarcity_consistent_def)
qed

lemma scarcityUpdateCombo_consistent:
  assumes "artist c = su_artist d \<and> event_type c = su_event_type d"
    and "event_agrees c (ScarcityUpdate d)"
    and "safe_counts (scarcityUpdateCombo d c)"
  shows "scarcity_consistent (scarcityUpdateCombo d c)"
proof -
  define m' where "m' = js_sub (su_total_supply d) (su_remaining_slots d)"
  have new: "scarcityUpdateCombo d c =
      c\<lparr>scarcity_info := (scarcity_info c)
           \<lparr>remaining_slots := Some (su_remaining_slots d), total_supply := Some (su_total_supply d),
            minted_count := m', is_sold_out := js_le0 (su_remaining_slots d)\<rparr>,
         is_available := su_is_available d\<rparr>"
    using assms(1) by (simp add: scarcityUpdateCombo_def Let_def m'_def)
  from assms(1,2) have ag: "su_total_supply d = total_limit (scarcity_info c)"
    "su_is_available d = js_gt0 (su_remaining_slots d)"
    by simp_all
  from assms(3) have s: "safe_integer (total_limit (scarcity_info c))" "safe_integer m'"
    by (simp_all add: new safe_counts_def)
  from s(1) obtain t where t: "total_limit (scarcity_info c) = Fin t" using safe_integer_Fin by blast
  from s(2) t ag(1) obtain z where z: "su_remaining_slots d = Fin z" "m' = Fin (t - z)"
    unfolding m'_def using js_sub_safe [of t "su_remaining_slots d"] by auto
  with t ag show ?thesis
    unfolding new by (simp add: scarcity_consistent_def)
qed

lemma event_agrees_key: "combo_key c = combo_key c' \<Longrightarrow> event_agrees c ev = event_agrees c' ev"
  by (cases ev) (auto simp: combo_key_def)

lemma applyScarcityEvent_keys: "map combo_key (applyScarcityEvent xs ev) = map combo_key xs"
  by (cases ev)
     (simp_all add: combo_key_def handleNewMint_def handleScarcityUpdate_def onScarcityChange_def
        newMintCombo_def scarcityUpdateCombo_def scarcityChangeCombo_def Let_def)

lemma event_agrees_transfer:
  assumes "map combo_key ys = map combo_key xs" and "\<forall>c \<in> set xs. event_agrees c ev"
  shows "\<forall>c \<in> set ys. event_agrees c ev"
proof
  fix c assume "c \<in> set ys"
  then have "combo_key c \<in> set (map combo_key xs)"
    using assms(1) by (metis image_eqI set_map)
  then obtain c' where "c' \<in> set xs" "combo_key c = combo_key c'" by auto
  with assms(2) event_agrees_key show "event_agrees c ev" by blast
qed

lemma applyScarcityEvent_consistent:
  assumes "\<forall>c \<in> set xs. scarcity_consistent c" and "\<forall>c \<in> set xs. event_agrees c ev"
    and "\<forall>c \<in> set (applyScarcityEvent xs ev). safe_counts c"
  shows "\<forall>c \<in> set (applyScarcityEvent xs ev). scarcity_consistent c"
proof (cases ev)
  case (NewMint d)
  have "scarcity_consistent (newMintCombo d c)" if "c \<in> set xs" for c
  proof (cases "artist c = nm_artist d \<and> event_type c = nm_event_type d")
    case True
    from that assms(3) NewMint have "safe_counts (newMintCombo d c)"
      by (simp add: handleNewMint_def)
    with True show ?thesis by (rule newMintCombo_consistent)
  next
    case False
    then have "newMintCombo d c = c" by (auto simp: newMintCombo_def)
    with that assms(1) show ?thesis by simp
  qed
  with NewMint show ?thesis by (simp add: handleNewMint_def)
next
  case (ScarcityUpdate d)
  have "scarcity_consistent (scarcityUpdateCombo d c)" if "c \<in> set xs" for c
  proof (cases "artist c = su_artist d \<and> event_type c = su_event_type d")
    case True
    from that assms(3) ScarcityUpdate have "safe_counts (scarcityUpdateCombo d c)"
      by (simp add: handleScarcityUpdate_def)
    moreover from that assms(2) ScarcityUpdate have "event_agrees c (ScarcityUpdate d)" by simp
    ultimately show ?thesis using True by (intro scarcityUpdateCombo_consistent)
  next
    case False
    then have "scarcityUpdateCombo d c = c" by (auto simp: scarcityUpdateCombo_def)
    with that assms(1) show ?thesis by simp
  qed
  with ScarcityUpdate show ?thesis by (simp add: handleScarcityUpdate_def)
next
  case (ScarcityChange a e r)
  have "scarcity_consistent (scarcityChangeCombo a e r c)" if "c \<in> set xs" for c
  proof (cases "artist c = a \<and> event_type c = e")
    case True
    from that assms(3) ScarcityChange have "safe_counts (scarcityChangeCombo a e r c)"
      by (simp add: onScarcityChange_def)
    with True show ?thesis by (rule scarcityChangeCombo_consistent)
  next
    case False
    then have "scarcityChangeCombo a e r c = c" by (auto simp: scarcityChangeCombo_def)
    with that assms(1) show ?thesis by simp
  qed
  with ScarcityChange show ?thesis by (simp add: onScarcityChange_def)
qed

text \<open>
  C1, as the code has it. Start from a snapshot in which every combination satisfies
  the three relations (\<open>remaining_slots = total_limit - minted_count\<close>, \<open>is_sold_out\<close>
  iff \<open>remaining_slots \<le> 0\<close>, \<open>is_available\<close> iff \<open>remaining_slots > 0\<close>), and apply any
  sequence of \<open>new_mint\<close> events, \<open>onScarcityChange\<close> callbacks and \<open>scarcity_update\<close>
  events, where every \<open>scarcity_update\<close> carries, for each snapshot combination it
  addresses, that combination's \<open>total_limit\<close> as \<open>total_supply\<close> and an
  \<open>is_available\<close> flag equal to \<open>remaining_slots > 0\<close>, and where after every event the
  \<open>total_limit\<close>, \<open>minted_count\<close> and \<open>remaining_slots\<close> of every combination are safe
  integers (of magnitude below \<open>2^53\<close>). Then every combination of the resulting
  state satisfies the three relations.
\<close>

theorem scarcity_consistent_reachable:
  assumes "\<forall>c \<in> set snapshot. scarcity_consistent c"
    and "\<forall>ev \<in> set evs. \<forall>c \<in> set snapshot. event_agrees c ev"
    and "\<forall>state \<in> set (scarcityStates snapshot evs). \<forall>c \<in> set state. safe_counts c"
  shows "\<forall>c \<in> set (scarcityAfter snapshot evs). scarcity_consistent c"
  using assms
proof (induction evs arbitrary: snapshot)
  case Nil
  then show ?case by (simp add: scarcityAfter_def)
next
  case (Cons ev evs)
  let ?next = "applyScarcityEvent snapshot ev"
  from Cons.prems(2) have ag: "\<forall>c \<in> set snapshot. event_agrees c ev" by simp
  from Cons.prems(3) have safe: "\<forall>c \<in> set ?next. safe_counts c" by simp
  from applyScarcityEvent_consistent [OF Cons.prems(1) ag safe]
  have 1: "\<forall>c \<in> set ?next. scarcity_consistent c" .
  have 2: "\<forall>ev' \<in> set evs. \<forall>c \<in> set ?next. event_agrees c ev'"
  proof
    fix ev' assume "ev' \<in> set evs"
    with Cons.prems(2) have "\<forall>c \<in> set snapshot. event_agrees c ev'" by simp
    then show "\<forall>c \<in> set ?next. event_agrees c ev'"
      by (rule event_agrees_transfer [OF applyScarcityEvent_keys])
  qed
  from Cons.prems(3) have 3: "\<forall>state \<in> set (scarcityStates ?next evs). \<forall>c \<in> set state. safe_counts c"
    by simp
  from Cons.IH [OF 1 2 3] show ?case by (simp add: scarcityAfter_def)
qed

theorem scarcity_consistent_reachable_witness:
  "list_all scarcity_consistent [combo_ex, combo_other] \<and>
   list_all (\<lambda>ev. list_all (\<lambda>c. event_agrees c ev) [combo_ex, combo_other])
     [NewMint mint_ex, ScarcityUpdate upd_ok, ScarcityChange (js ''Dali'') (js ''sunrise'') (Fin 0)] \<and>
   list_all (list_all safe_counts)
     (scarcityStates [combo_ex, combo_other]
        [NewMint mint_ex, ScarcityUpdate upd_ok, ScarcityChange (js ''Dali'') (js ''sunrise'') (Fin 0)]) \<and>
   list_all scarcity_consistent
     (scarcityAfter [combo_ex, combo_other]
        [NewMint mint_ex, ScarcityUpdate upd_ok, ScarcityChange (js ''Dali'') (js ''sunrise'') (Fin 0)]) \<and>
   map (\<lambda>c. (minted_count (scarcity_info c), remaining_slots (scarcity_info c), is_available c))
     (scarcityAfter [combo_ex, combo_other]
        [NewMint mint_ex, ScarcityUpdate upd_ok, ScarcityChange (js ''Dali'') (js ''sunrise'') (Fin 0)])
     = [(Fin 5, Some (Fin 5), True), (Fin 10, Some (Fin 0), False)]"
proof -
  have a: "\<forall>c \<in> set [combo_ex, combo_other]. scarcity_consistent c"
    by (simp add: scarcity_consistent_def combo_ex_def combo_other_def)
  have b: "\<forall>ev \<in> set [NewMint mint_ex, ScarcityUpdate upd_ok, ScarcityChange (js ''Dali'') (js ''sunrise'') (Fin 0)].
             \<forall>c \<in> set [combo_ex, combo_other]. event_agrees c ev"
    by (simp add: combo_ex_def combo_other_def upd_ok_def upd_ex_def)
  have r: "js_round 10 = Fin 10" "js_round 0 = Fin 0" "js_round 5 = Fin 5"
    by (simp_all add: js_round_def round_nat_def)
  have c: "\<forall>state \<in> set (scarcityStates [combo_ex, combo_other]
        [NewMint mint_ex, ScarcityUpdate upd_ok, ScarcityChange (js ''Dali'') (js ''sunrise'') (Fin 0)]).
      \<forall>c \<in> set state. safe_counts c"
    by (simp add: handleNewMint_def handleScarcityUpdate_def onScarcityChange_def newMintCombo_def
        scarcityUpdateCombo_def scarcityChangeCombo_def Let_def safe_counts_def js_sub_def r
        combo_ex_def combo_other_def mint_ex_def upd_ok_def upd_ex_def js_def)
  have d: "map (\<lambda>c. (minted_count (scarcity_info c), remaining_slots (scarcity_info c), is_available c))
     (scarcityAfter [combo_ex, combo_other]
        [NewMint mint_ex, ScarcityUpdate upd_ok, ScarcityChange (js ''Dali'') (js ''sunrise'') (Fin 0)])
     = [(Fin 5, Some (Fin 5), True), (Fin 10, Some (Fin 0), False)]"
    by (simp add: scarcityAfter_def handleNewMint_def handleScarcityUpdate_def onScarcityChange_def
        newMintCombo_def scarcityUpdateCombo_def scarcityChangeCombo_def Let_def js_sub_def r
        combo_ex_def combo_other_def mint_ex_def upd_ok_def upd_ex_def js_def)
  from scarcity_consistent_reachable [OF a b c] a b c d show ?thesis
    by (simp add: list_all_iff)
qed

theorem scarcity_consistent_counterexample:
  "\<not> scarcity_consistent (scarcityAfter [combo_unset] [] ! 0) \<and>
   scarcity_consistent combo_ex \<and>
   \<not> scarcity_consistent (scarcityAfter [combo_ex] [ScarcityUpdate upd_ex] ! 0) \<and>
   su_total_supply upd_flag = total_limit (scarcity_info combo_ex) \<and>
   \<not> scarcity_consistent (scarcityAfter [combo_ex] [ScarcityUpdate upd_flag] ! 0) \<and>
   scarcity_consistent combo_big \<and>
   minted_count (scarcity_info
      (scarcityAfter [combo_big] [ScarcityChange (js ''Monet'') (js ''sunrise'') (Fin 1)] ! 0))
     = Fin 9007199254740992 \<and>
   \<not> scarcity_consistent
      (scarcityAfter [combo_big] [ScarcityChange (js ''Monet'') (js ''sunrise'') (Fin 1)] ! 0)"
  by (simp add: scarcity_consistent_def scarcityAfter_def handleScarcityUpdate_def
      scarcityUpdateCombo_def onScarcityChange_def scarcityChangeCombo_def Let_def
      combo_unset_def combo_ex_def combo_big_def upd_ex_def upd_flag_def upd_ok_def
      js_sub_def js_round_def round_nat_def bit_length_54)

section \<open>Effect cleanups\<close>

text \<open>
  C8, at the unmount of a \<open>ScarcityIndicator\<close> whose effect has registered its listener
  on a connected socket. The cleanup of \<open>useWebSocket\<close> disconnects the socket first,
  so the guard \<open>socket.connected\<close> of the scarcity effect's cleanup is false: the
  \<open>scarcity_update\<close> listener stays registered and \<open>leave_scarcity_room\<close> is not
  emitted. The page's cleanup, which has no guard, removes its three listeners and
  disconnects.
\<close>

theorem indicatorUnmount_keeps_listener:
  "indicatorEffect props_ex (Some (io_socket\<lparr>connected := True\<rparr>)) True =
     (Some sock_joined_ex, Some (IndicatorCleanup (js ''Monet'') (js ''sunrise'') True)) \<and>
   indicatorUnmount (Some (IndicatorCleanup (js ''Monet'') (js ''sunrise'') True)) sock_joined_ex =
     sock_joined_ex\<lparr>connected := False\<rparr> \<and>
   (js ''scarcity_update'', IndicatorHandleScarcityUpdate (js ''Monet'') (js ''sunrise'') True)
     \<in> set (listeners (indicatorUnmount
                (Some (IndicatorCleanup (js ''Monet'') (js ''sunrise'') True)) sock_joined_ex)) \<and>
   emitted (indicatorUnmount (Some (IndicatorCleanup (js ''Monet'') (js ''sunrise'') True))
              sock_joined_ex) =
     [(js ''join_scarcity_room'', RoomData (js ''Monet'') (js ''sunrise''))] \<and>
   pageSocketEffect None = (Some (pageSocketListeners io_socket), True) \<and>
   listeners (pageSocketCleanup ((pageSocketListeners io_socket)\<lparr>connected := True\<rparr>)) =
     [(js ''connect'', OnConnect), (js ''disconnect'', OnDisconnect),
      (js ''connect_error'', OnConnectError)] \<and>
   \<not> connected (pageSocketCleanup ((pageSocketListeners io_socket)\<lparr>connected := True\<rparr>))"
  by (simp add: indicatorEffect_def indicatorUnmount_def props_ex_def io_socket_def
      sock_joined_ex_def sock_on_def sock_off_def sock_emit_def sock_disconnect_def
      pageSocketEffect_def pageSocketListeners_def pageSocketCleanup_def Let_def js_def)

section \<open>\<open>validateForm\<close>\<close>

lemma getScarcityForCombination_filter:
  "getScarcityForCombination combos a e =
     (case filter (\<lambda>combo. artist combo = a \<and> event_type combo = e) combos of
        [] \<Rightarrow> None
      | combo # _ \<Rightarrow> Some (scarcity_info combo))"
proof -
  have f: "find P xs = (case filter P xs of [] \<Rightarrow> None | x # _ \<Rightarrow> Some x)" for P and xs :: "'a list"
    by (induction xs) simp_all
  show ?thesis
    by (cases combos) (auto simp: getScarcityForCombination_def f split: list.splits)
qed

text \<open>
  C4. \<open>validateForm\<close> returns a message exactly in these cases: no wallet is connected;
  or the mode is basic and no artist is selected, or no event is selected, or the
  list of combinations has an entry with the selected artist and event and the first
  such entry's scarcity info has \<open>is_sold_out\<close> true; or the mode is advanced and the
  trimmed custom prompt is empty, shorter than 10 or longer than 500 code units. In
  every other case it returns \<open>null\<close>; in particular in basic mode with a wallet, an
  artist and an event, when the list has no entry for the selected combination.
\<close>

theorem validateForm_blocks_iff:
  "(let selected = filter (\<lambda>combo. artist combo = selectedArtist st \<and> event_type combo = selectedEvent st)
                     (allCombinationsScarcity st) in
    (validateForm st \<noteq> None) =
      (wallet st = None \<or>
       (mode st = Basic \<and>
          (selectedArtist st = [] \<or> selectedEvent st = [] \<or>
           (selected \<noteq> [] \<and> is_sold_out (scarcity_info (hd selected))))) \<or>
       (mode st = Advanced \<and>
          (js_trim (customPrompt st) = [] \<or> length (js_trim (customPrompt st)) < 10 \<or>
           length (js_trim (customPrompt st)) > 500))) \<and>
    (wallet st \<noteq> None \<and> mode st = Basic \<and> selectedArtist st \<noteq> [] \<and> selectedEvent st \<noteq> [] \<and>
     selected = [] \<longrightarrow> validateForm st = None))"
  by (cases "mode st")
     (auto simp: validateForm_def getScarcityForCombination_filter Let_def split: list.splits)

theorem validateForm_blocks_iff_witness:
  "validateForm form_ex = None \<and>
   validateForm (form_ex\<lparr>allCombinationsScarcity := [combo_other, combo_sold, combo_ex]\<rparr>) \<noteq> None \<and>
   validateForm (form_ex\<lparr>allCombinationsScarcity := [combo_other_sold, combo_ex, combo_sold]\<rparr>) = None \<and>
   validateForm (form_ex\<lparr>allCombinationsScarcity := [combo_other_sold]\<rparr>) = None \<and>
   validateForm (form_ex\<lparr>wallet := None\<rparr>) \<noteq> None \<and>
   validateForm (form_ex\<lparr>selectedEvent := []\<rparr>) \<noteq> None \<and>
   validateForm (form_ex\<lparr>mode := Advanced, customPrompt := js ''  a cat   ''\<rparr>) \<noteq> None \<and>
   validateForm (form_ex\<lparr>mode := Advanced, customPrompt := js '' a cat in a hat ''\<rparr>) = None"
proof -
  have sel: "selectedArtist form_ex = js ''Monet''" "selectedEvent form_ex = js ''sunrise''"
    "wallet form_ex = Some wallet_ex" "mode form_ex = Basic" "allCombinationsScarcity form_ex = []"
    by (simp_all add: form_ex_def initial_page_state_def)
  have keys: "artist combo_ex = js ''Monet''" "event_type combo_ex = js ''sunrise''"
    "artist combo_sold = js ''Monet''" "event_type combo_sold = js ''sunrise''"
    "artist combo_other = js ''Dali''" "artist combo_other_sold = js ''Dali''"
    "is_sold_out (scarcity_info combo_sold)" "\<not> is_sold_out (scarcity_info combo_ex)"
    by (simp_all add: combo_ex_def combo_sold_def combo_other_def combo_other_sold_def)
  have ne: "js ''Dali'' \<noteq> js ''Monet''" "js ''Monet'' \<noteq> []" "js ''sunrise'' \<noteq> []"
    by (simp_all add: js_def)
  have 1: "validateForm form_ex = None"
    using validateForm_blocks_iff [of form_ex] by (simp add: sel ne)
  have 2: "validateForm (form_ex\<lparr>allCombinationsScarcity := [combo_other, combo_sold, combo_ex]\<rparr>) \<noteq> None"
    using validateForm_blocks_iff [of "form_ex\<lparr>allCombinationsScarcity := [combo_other, combo_sold, combo_ex]\<rparr>"]
    by (simp add: sel keys ne)
  have 3: "validateForm (form_ex\<lparr>allCombinationsScarcity := [combo_other_sold, combo_ex, combo_sold]\<rparr>) = None"
    using validateForm_blocks_iff [of "form_ex\<lparr>allCombinationsScarcity := [combo_other_sold, combo_ex, combo_sold]\<rparr>"]
    by (simp add: sel keys ne)
  have 4: "validateForm (form_ex\<lparr>allCombinationsScarcity := [combo_other_sold]\<rparr>) = None"
    using validateForm_blocks_iff [of "form_ex\<lparr>allCombinationsScarcity := [combo_other_sold]\<rparr>"]
    by (simp add: sel keys ne)
  have 5: "validateForm (form_ex\<lparr>wallet := None\<rparr>) \<noteq> None"
    using validateForm_blocks_iff [of "form_ex\<lparr>wallet := None\<rparr>"] by simp
  have 6: "validateForm (form_ex\<lparr>selectedEvent := []\<rparr>) \<noteq> None"
    using validateForm_blocks_iff [of "form_ex\<lparr>selectedEvent := []\<rparr>"] by (simp add: sel)
  have t1: "js_trim (js ''  a cat   '') = js ''a cat''"
    by (simp add: js_trim_def js_def is_whitespace_def)
  have t2: "js_trim (js '' a cat in a hat '') = js ''a cat in a hat''"
    by (simp add: js_trim_def js_def is_whitespace_def)
  have 7: "validateForm (form_ex\<lparr>mode := Advanced, customPrompt := js ''  a cat   ''\<rparr>) \<noteq> None"
    using validateForm_blocks_iff [of "form_ex\<lparr>mode := Advanced, customPrompt := js ''  a cat   ''\<rparr>"]
    by (simp add: t1) (simp add: js_def)
  have 8: "validateForm (form_ex\<lparr>mode := Advanced, customPrompt := js '' a cat in a hat ''\<rparr>) = None"
    using validateForm_blocks_iff [of "form_ex\<lparr>mode := Advanced, customPrompt := js '' a cat in a hat ''\<rparr>"]
    by (simp add: t2 sel) (simp add: js_def)
  from 1 2 3 4 5 6 7 8 show ?thesis by simp
qed

section \<open>\<open>generateRandomHex\<close>\<close>

lemma digit_char_hex: "d < 16 \<Longrightarrow> is_lower_hex (digit_char d)"
proof -
  assume "d < 16"
  then have "d \<in> {0, 1, 2, 3, 4, 5, 6, 7, 8, 9, 10, 11, 12, 13, 14, 15}" by (simp only: insert_iff empty_iff) arith
  then show ?thesis by (auto simp: is_lower_hex_def digit_char_def)
qed

lemma digits_of_small: "n < 16 \<Longrightarrow> digits_of 16 n = [n]"
  by (subst digits_of.simps) simp

lemma digits_of_byte: "n < 256 \<Longrightarrow> \<not> n < 16 \<Longrightarrow> digits_of 16 n = [n div 16, n mod 16]"
  by (subst digits_of.simps) (simp add: digits_of_small)

lemma byte_hex_length: "length (byte_hex b) = 2"
proof -
  have "unat b < 256" using unsigned_less [of b, where ?'a = nat] by simp
  then show ?thesis
    by (cases "unat b < 16") (simp_all add: byte_hex_def js_padStart_def js_toString_def digits_of_small digits_of_byte)
qed

lemma byte_hex_chars: "c \<in> set (byte_hex b) \<Longrightarrow> is_lower_hex c"
proof -
  assume c: "c \<in> set (byte_hex b)"
  have z: "is_lower_hex 0x30" by (simp add: is_lower_hex_def)
  have b: "unat b < 256" using unsigned_less [of b, where ?'a = nat] by simp
  show ?thesis
  proof (cases "unat b < 16")
    case True
    with c z show ?thesis
      by (auto simp: byte_hex_def js_padStart_def js_toString_def digits_of_small digit_char_hex)
  next
    case False
    with b have "unat b div 16 < 16" by simp
    with c z b False show ?thesis
      by (auto simp: byte_hex_def js_padStart_def js_toString_def digits_of_byte digit_char_hex)
  qed
qed

lemma concat_hex_length: "length (concat (map byte_hex bs)) = 2 * length bs"
  by (induction bs) (simp_all add: byte_hex_length)

lemma concat_hex_chars: "c \<in> set (concat (map byte_hex bs)) \<Longrightarrow> is_lower_hex c"
  by (auto dest: byte_hex_chars)

lemma substring_tail:
  "0 \<le> n \<Longrightarrow> length (js_substring s 2 (n + 2)) \<le> nat n \<and> set (js_substring s 2 (n + 2)) \<subseteq> set (drop 2 s)"
proof -
  assume n: "0 \<le> n"
  show ?thesis
  proof (cases "2 \<le> length s")
    case True
    then have "js_substring s 2 (n + 2) = take (nat (min (n + 2) (int (length s)) - 2)) (drop 2 s)"
      using n by (simp add: js_substring_def Let_def min_def max_def)
    then show ?thesis using n by (auto dest: in_set_takeD)
  next
    case False
    then have "js_substring s 2 (n + 2) = []"
      using n by (auto simp add: js_substring_def Let_def min_def max_def)
    then show ?thesis by simp
  qed
qed

lemma random_tail_hex: "c \<in> set (drop 2 (random_toString16 x)) \<Longrightarrow> is_lower_hex c"
proof -
  have "unat d < 16" for d :: "4 word" using unsigned_less [of d, where ?'a = nat] by simp
  then show "c \<in> set (drop 2 (random_toString16 x)) \<Longrightarrow> is_lower_hex c"
    by (auto simp: random_toString16_def js_def digit_char_hex split: if_splits)
qed

lemma fallback_ok:
  assumes "0 \<le> n"
  shows "length (js_padEnd (js_substring (random_toString16 x) 2 (n + 2)) n 0x30) = nat n"
    and "c \<in> set (js_padEnd (js_substring (random_toString16 x) 2 (n + 2)) n 0x30) \<Longrightarrow> is_lower_hex c"
proof -
  from substring_tail [OF assms, of "random_toString16 x"]
  have l: "length (js_substring (random_toString16 x) 2 (n + 2)) \<le> nat n"
    and s: "set (js_substring (random_toString16 x) 2 (n + 2)) \<subseteq> set (drop 2 (random_toString16 x))"
    by simp_all
  from l show "length (js_padEnd (js_substring (random_toString16 x) 2 (n + 2)) n 0x30) = nat n"
    by (simp add: js_padEnd_def)
  have z: "is_lower_hex 0x30" by (simp add: is_lower_hex_def)
  assume "c \<in> set (js_padEnd (js_substring (random_toString16 x) 2 (n + 2)) n 0x30)"
  with s z show "is_lower_hex c"
    by (auto simp: js_padEnd_def dest: random_tail_hex split: if_splits)
qed

lemma generateRandomHex_result:
  assumes "nat n \<le> max_string_length g"
  shows "\<exists>s g'. generateRandomHex g n = Inr (s, g') \<and>
     (0 < n \<and> n mod 2 = 0 \<longrightarrow> length s = nat n \<and> (\<forall>c \<in> set s. is_lower_hex c))"
proof (cases "generateRandomHexTry g n")
  case (Inl e)
  obtain x g' where m: "mathRandom g = (x, g')" by (cases "mathRandom g")
  from assms have "js_padEnd_checked (max_string_length g) (js_substring (random_toString16 x) 2 (n + 2)) n 0x30
      = Inr (js_padEnd (js_substring (random_toString16 x) 2 (n + 2)) n 0x30)"
    by (simp add: js_padEnd_checked_def)
  with Inl m have r: "generateRandomHex g n = Inr (js_padEnd (js_substring (random_toString16 x) 2 (n + 2)) n 0x30, g')"
    by (simp add: generateRandomHex_def)
  show ?thesis using r fallback_ok [where n = n and x = x] by auto
next
  case (Inr r)
  then obtain s g' where r: "r = (s, g')" by (cases r)
  with Inr have g: "generateRandomHex g n = Inr (s, g')"
    by (simp add: generateRandomHex_def)
  from Inr r have pos: "0 < n \<and> n mod 2 = 0"
    by (auto simp: generateRandomHexTry_def split: if_splits)
  from Inr r obtain bytes where b: "getRandomValues g (nat (n div 2)) = Inr (bytes, g')" and s: "s = concat (map byte_hex bytes)"
    by (auto simp: generateRandomHexTry_def split: if_splits sum.splits)
  from b have "length bytes = nat (n div 2)"
    by (auto simp: getRandomValues_def split: if_splits)
  moreover have "2 * nat (n div 2) = nat n"
  proof -
    from pos have "n = 2 * (n div 2)" by presburger
    then have "nat n = nat (2 * (n div 2))" by simp
    also have "\<dots> = 2 * nat (n div 2)" by (simp add: nat_mult_distrib)
    finally show ?thesis by simp
  qed
  ultimately have "length s = nat n"
    using s by (simp add: concat_hex_length)
  with g s show ?thesis by (auto dest: byte_hex_chars)
qed

text \<open>
  C10, as the code has it. For every integer argument that is not larger than the
  engine's maximum string length \<open>generateRandomHex\<close> returns a string (a throw inside
  its \<open>try\<close> block, such as the one for an odd or non-positive length, ends in the
  fallback of the \<open>catch\<close> block), and for every positive even \<open>n\<close> up to that length
  the string has exactly \<open>n\<close> code units, each a lowercase hexadecimal digit.
\<close>

theorem generateRandomHex_never_throws:
  "nat n \<le> max_string_length g \<longrightarrow>
   (\<exists>s g'. generateRandomHex g n = Inr (s, g') \<and>
      (0 < n \<and> n mod 2 = 0 \<longrightarrow> length s = nat n \<and> (\<forall>c \<in> set s. is_lower_hex c)))"
  by (rule impI) (rule generateRandomHex_result)

theorem generateRandomHex_never_throws_witness:
  "nat 4 \<le> max_string_length rng_ex \<and>
   (\<exists>s g'. generateRandomHex rng_ex 4 = Inr (s, g') \<and> length s = 4 \<and> list_all is_lower_hex s) \<and>
   map_sum id fst (generateRandomHex rng_ex 4) = Inr (js ''05b0'') \<and>
   map_sum id fst (generateRandomHex (rng_ex\<lparr>crypto_available := False\<rparr>) 4) = Inr (js ''a3f0'') \<and>
   map_sum id fst (generateRandomHex rng_ex 3) = Inr (js ''a3f'') \<and>
   map_sum id fst (generateRandomHex rng_ex (- 1)) = Inr (js ''.'')"
proof -
  have l: "nat 4 \<le> max_string_length rng_ex"
    by (simp add: max_string_length_def)
  have u: "[0..<2] = [0, 1]"
    by (simp add: upt_rec)
  have a: "map_sum id fst (generateRandomHex rng_ex 4) = Inr (js ''05b0'')"
    by (simp add: generateRandomHex_def generateRandomHexTry_def getRandomValues_def rng_ex_def u
        byte_hex_def js_toString_def digits_of_small digits_of_byte js_padStart_def digit_char_def
        js_def)
  have b: "map_sum id fst (generateRandomHex (rng_ex\<lparr>crypto_available := False\<rparr>) 4) = Inr (js ''a3f0'')"
    by (simp add: generateRandomHex_def generateRandomHexTry_def getRandomValues_def rng_ex_def
        mathRandom_def random_toString16_def js_substring_def js_padEnd_checked_def js_padEnd_def
        max_string_length_def digit_char_def js_def)
  have c: "map_sum id fst (generateRandomHex rng_ex 3) = Inr (js ''a3f'')"
    by (simp add: generateRandomHex_def generateRandomHexTry_def rng_ex_def
        mathRandom_def random_toString16_def js_substring_def js_padEnd_checked_def js_padEnd_def
        max_string_length_def digit_char_def js_def)
  have d: "map_sum id fst (generateRandomHex rng_ex (- 1)) = Inr (js ''.'')"
    by (simp add: generateRandomHex_def generateRandomHexTry_def rng_ex_def
        mathRandom_def random_toString16_def js_substring_def js_padEnd_checked_def js_padEnd_def
        max_string_length_def digit_char_def js_def)
  from generateRandomHex_never_throws [of 4 rng_ex] l
  have "\<exists>s g'. generateRandomHex rng_ex 4 = Inr (s, g') \<and> length s = 4 \<and> list_all is_lower_hex s"
    by (auto simp: list_all_iff)
  with l a b c d show ?thesis by simp
qed

theorem generateRandomHex_counterexample:
  "(0::int) < 1073741824 \<and> (1073741824::int) mod 2 = 0 \<and>
   max_string_length rng_ex = 536870888 \<and>
   generateRandomHex rng_ex 1073741824 = Inl (ErrorObj (js ''Invalid string length''))"
  by (simp add: generateRandomHex_def generateRandomHexTry_def getRandomValues_def rng_ex_def
      mathRandom_def random_toString16_def js_substring_def js_padEnd_checked_def
      max_string_length_def js_def)

section \<open>\<open>generateUniquenessFactors\<close>\<close>

lemma generateUniquenessFactors_with_principal:
  assumes "principal w \<noteq> []"
  shows "\<exists>lh g'. generateUniquenessFactors g now (Some w) =
     (\<lparr>location_hash = lh, timestamp_seed = js_toString 10 (now div 1000),
       wallet_entropy = js_padStart (js_slice_last (principal w) 16) 16 0x30,
       wallet_principal = Some (principal w),
       wallet_account_id = (if accountId w = [] then None else Some (accountId w)),
       biometric_opt_in = False, biometric_hash = None\<rparr>, g')"
proof -
  have "nat 16 \<le> max_string_length g"
    by (simp add: max_string_length_def)
  then obtain s g1 where "generateRandomHex g 16 = Inr (s, g1)"
    using generateRandomHex_result [of 16 g] by blast
  with assms show ?thesis
    by (simp add: generateUniquenessFactors_def generateUniquenessFactorsTry_def or_null_def Let_def)
qed

lemma generateUniquenessFactors_biometric:
  "biometric_opt_in (fst (generateUniquenessFactors g now wi)) = False \<and>
   biometric_hash (fst (generateUniquenessFactors g now wi)) = None"
  by (auto simp: generateUniquenessFactors_def generateUniquenessFactorsTry_def Let_def mathRandom_def
      split: sum.splits prod.splits option.splits if_splits)

text \<open>
  C9, as the code has it. For a wallet whose principal is a non-empty string, any two
  calls (whatever the random sources and the clock) give the same \<open>wallet_entropy\<close>:
  the last 16 code units of the principal, left-padded with \<open>0\<close> to length 16.
  \<open>wallet_principal\<close> is the wallet's principal; \<open>wallet_account_id\<close> is the wallet's
  \<open>accountId\<close> when that is non-empty and \<open>null\<close> when it is the empty string. For
  every argument \<open>biometric_opt_in\<close> is false and \<open>biometric_hash\<close> is \<open>null\<close>.
\<close>

theorem generateUniquenessFactors_wallet_fields:
  "biometric_opt_in (fst (generateUniquenessFactors g1 now1 wi)) = False \<and>
   biometric_hash (fst (generateUniquenessFactors g1 now1 wi)) = None \<and>
   (principal w \<noteq> [] \<longrightarrow>
      wallet_entropy (fst (generateUniquenessFactors g1 now1 (Some w))) =
        wallet_entropy (fst (generateUniquenessFactors g2 now2 (Some w))) \<and>
      wallet_entropy (fst (generateUniquenessFactors g1 now1 (Some w))) =
        js_padStart (js_slice_last (principal w) 16) 16 0x30 \<and>
      length (wallet_entropy (fst (generateUniquenessFactors g1 now1 (Some w)))) = 16 \<and>
      wallet_principal (fst (generateUniquenessFactors g1 now1 (Some w))) = Some (principal w) \<and>
      wallet_account_id (fst (generateUniquenessFactors g1 now1 (Some w))) =
        (if accountId w = [] then None else Some (accountId w)))"
proof -
  have "length (js_padStart (js_slice_last (principal w) 16) 16 0x30) = 16"
    by (simp add: js_padStart_def js_slice_last_def)
  moreover have "principal w \<noteq> [] \<Longrightarrow> ?thesis"
    using generateUniquenessFactors_with_principal [of w g1 now1]
      generateUniquenessFactors_with_principal [of w g2 now2]
      generateUniquenessFactors_biometric [of g1 now1 wi] calculation
    by auto
  ultimately show ?thesis
    using generateUniquenessFactors_biometric [of g1 now1 wi] by blast
qed

theorem generateUniquenessFactors_wallet_fields_witness:
  "principal wallet_ex \<noteq> [] \<and>
   wallet_entropy (fst (generateUniquenessFactors rng_ex 5000 (Some wallet_ex))) =
     wallet_entropy (fst (generateUniquenessFactors (rng_ex\<lparr>crypto_available := False\<rparr>) 99000 (Some wallet_ex))) \<and>
   wallet_entropy (fst (generateUniquenessFactors rng_ex 5000 (Some wallet_ex))) = js ''00000abcde-fghij'' \<and>
   wallet_principal (fst (generateUniquenessFactors rng_ex 5000 (Some wallet_ex))) = Some (js ''abcde-fghij'') \<and>
   wallet_account_id (fst (generateUniquenessFactors rng_ex 5000 (Some wallet_ex))) = Some (js ''acc-1'')"
proof -
  have p: "principal wallet_ex \<noteq> []" by (simp add: wallet_ex_def js_def)
  have r: "replicate 5 (48 :: 16 word) = [48, 48, 48, 48, 48]"
    by (simp add: numeral_eq_Suc)
  have e: "js_padStart (js_slice_last (principal wallet_ex) 16) 16 0x30 = js ''00000abcde-fghij''"
    by (simp add: wallet_ex_def js_def js_padStart_def js_slice_last_def r)
  have a: "accountId wallet_ex = js ''acc-1''" "principal wallet_ex = js ''abcde-fghij''"
    by (simp_all add: wallet_ex_def)
  have n: "js ''acc-1'' \<noteq> []" by (simp add: js_def)
  from generateUniquenessFactors_wallet_fields
    [where w = wallet_ex and ?g1.0 = rng_ex and ?now1.0 = 5000
       and ?g2.0 = "rng_ex\<lparr>crypto_available := False\<rparr>" and ?now2.0 = 99000 and wi = None]
    p e a n
  show ?thesis by (simp (no_asm_use)) metis
qed

theorem generateUniquenessFactors_account_id_counterexample:
  "principal wallet_noacct \<noteq> [] \<and>
   wallet_account_id (fst (generateUniquenessFactors rng_ex 5000 (Some wallet_noacct))) = None \<and>
   wallet_account_id (fst (generateUniquenessFactors rng_ex 5000 (Some wallet_noacct)))
     \<noteq> Some (accountId wallet_noacct)"
proof -
  have p: "principal wallet_noacct \<noteq> []" by (simp add: wallet_noacct_def wallet_ex_def js_def)
  have a: "accountId wallet_noacct = []" by (simp add: wallet_noacct_def)
  from generateUniquenessFactors_with_principal [OF p, of rng_ex 5000] a p
  show ?thesis by auto
qed

section \<open>Retry of the initial data fetch\<close>

lemma retryCount_fetchInitialData:
  "retryCount (fetchInitialData isRetry outcome st) =
     (if fetch_succeeded (FetchCompleted isRetry outcome) then 0 else retryCount st)"
  by (auto simp: fetchInitialData_def Let_def split: fetch_outcome.splits option.splits)

lemma retries_since_success_snoc:
  "retries_since_success (evs @ [ev]) =
     (if fetch_succeeded ev then 0
      else (if ev = RetryPressed then 1 else 0) + retries_since_success evs)"
  by (simp add: retries_since_success_def)

lemma retryCount_history:
  "retryCount st0 = 0 \<Longrightarrow> retryCount (foldl init_step st0 evs) = retries_since_success evs"
proof (induction evs rule: rev_induct)
  case Nil
  then show ?case by (simp add: retries_since_success_def)
next
  case (snoc ev evs)
  then show ?case
    by (cases ev)
       (simp_all add: retries_since_success_snoc retryCount_fetchInitialData
          retryFetchInitialData_def Let_def)
qed

text \<open>
  C5. Start with a retry count of 0 and let any history of retry presses and completed
  fetches pass. The next press of the retry button is the \<open>n\<close>-th since the last
  successful fetch, with \<open>n \<ge> 1\<close>; it sets the retry count to \<open>n\<close> and schedules
  exactly one more re-fetch, after \<open>min(1000 * 2^(n-1), 5000)\<close> milliseconds. A
  successful fetch sets the retry count to 0.
\<close>

theorem retry_backoff:
  assumes "retryCount st0 = 0"
  shows "let st = foldl init_step st0 evs; n = retries_since_success (evs @ [RetryPressed]) in
           1 \<le> n \<and>
           retryCount (retryFetchInitialData st) = n \<and>
           timers (retryFetchInitialData st) = timers st @ [min (1000 * 2 ^ (n - 1)) 5000] \<and>
           retryCount (fetchInitialData isRetry (FetchResolved (Some as) (Some es)) st) = 0"
  using retryCount_history [OF assms, of evs]
  by (simp add: Let_def retries_since_success_snoc retryFetchInitialData_def
      retryCount_fetchInitialData)

theorem retry_backoff_witness:
  "retryCount initial_page_state = 0 \<and>
   retries_since_success (history_ex @ [RetryPressed]) = 4 \<and>
   retryCount (retryFetchInitialData (foldl init_step initial_page_state history_ex)) = 4 \<and>
   timers (retryFetchInitialData (foldl init_step initial_page_state history_ex)) =
     [1000, 2000, 4000, 5000] \<and>
   retryCount (fetchInitialData True (FetchResolved (Some [js ''Monet'']) (Some [js ''sunrise'']))
                 (foldl init_step initial_page_state history_ex)) = 0"
proof -
  have z: "retryCount initial_page_state = 0"
    by (simp add: initial_page_state_def)
  have n: "retries_since_success (history_ex @ [RetryPressed]) = 4"
    by (simp add: retries_since_success_def history_ex_def)
  have t: "timers (foldl init_step initial_page_state history_ex) = [1000, 2000, 4000]"
    by (simp add: history_ex_def initial_page_state_def retryFetchInitialData_def
        fetchInitialData_def Let_def)
  from retry_backoff [OF z, of history_ex True "[js ''Monet'']" "[js ''sunrise'']"] z n t
  show ?thesis by (simp add: Let_def)
qed

section \<open>Failure of NFT generation\<close>

text \<open>
  C6. When the \<open>try\<close> block of \<open>handleUpdatePreview\<close> fails (the wallet is connected and
  the form is valid, so the block is entered), the error stored under \<open>nftGeneration\<close>
  is chosen in this order: an axios error with code \<open>ECONNABORTED\<close> gives code
  \<open>TIMEOUT\<close>; an axios error with response status 429 gives code \<open>RATE_LIMIT\<close> and
  status 429; one with response status 500 gives code \<open>SERVER_ERROR\<close> and status 500.
  Every other failure gives a generic error: for an axios error its status is the
  response's status, its code the error's code, and its message the first non-empty
  one of the response's \<open>error\<close> text, the response's \<open>message\<close> text and the error's own
  message, or else a fixed network-error text; for another \<open>Error\<close> the message is the
  error's message followed by \<open>while generating NFT\<close>; for any other thrown value it
  is a fixed text. In each case one error toast is added and the \<open>nftGeneration\<close>
  loading flag ends up false.
\<close>

theorem generation_failure_classified:
  assumes "wallet st = Some w" and "validateForm st = None"
    and "generationTry g now server w st = Inl err"
  shows "let st' = handleUpdatePreview g now server st in
           loading_nftGeneration st' = False \<and>
           toasts st' = toasts st @ [ToastError (js ''Failed to generate NFT.'')] \<and>
           (\<exists>apiError. err_nftGeneration st' = Some apiError \<and>
              (case err of
                 AxiosErr e \<Rightarrow>
                   (let responseError = (case ax_response e of None \<Rightarrow> None | Some r \<Rightarrow> resp_error r);
                        responseMessage = (case ax_response e of None \<Rightarrow> None | Some r \<Rightarrow> resp_message r)
                    in
                    if ax_code e = Some (js ''ECONNABORTED'') then
                      apiError =
                        \<lparr>message = js ''NFT generation timed out. The server may be busy, please try again.'',
                         status = None, code = Some (js ''TIMEOUT'')\<rparr>
                    else if map_option resp_status (ax_response e) = Some 429 then
                      apiError =
                        \<lparr>message = js ''Too many requests. Please wait a moment before trying again.'',
                         status = Some 429, code = Some (js ''RATE_LIMIT'')\<rparr>
                    else if map_option resp_status (ax_response e) = Some 500 then
                      apiError =
                        \<lparr>message = js ''Server error occurred during NFT generation. Please try again.'',
                         status = Some 500, code = Some (js ''SERVER_ERROR'')\<rparr>
                    else
                      status apiError = map_option resp_status (ax_response e) \<and>
                      code apiError = ax_code e \<and>
                      message apiError =
                        (if responseError \<noteq> None \<and> responseError \<noteq> Some [] then the responseError
                         else if responseMessage \<noteq> None \<and> responseMessage \<noteq> Some [] then the responseMessage
                         else if ax_message e \<noteq> [] then ax_message e
                         else js ''Network error occurred while generating NFT''))
               | ErrorObj m \<Rightarrow>
                   apiError = \<lparr>message = m @ js '' while generating NFT'', status = None, code = None\<rparr>
               | OtherThrown \<Rightarrow>
                   apiError =
                     \<lparr>message = js ''Unknown error occurred while generating NFT'',
                      status = None, code = None\<rparr>))"
proof -
  have final: "handleUpdatePreview g now server st =
      st\<lparr>err_nftGeneration := Some (generationError err), err_validation := None,
         loading_nftGeneration := False,
         toasts := toasts st @ [ToastError (js ''Failed to generate NFT.'')]\<rparr>"
    using assms by (simp add: handleUpdatePreview_def Let_def)
  have lit: "js ''Network error occurred while '' @ js ''generating NFT'' =
        js ''Network error occurred while generating NFT''"
      "js ''Unknown error occurred while '' @ js ''generating NFT'' =
        js ''Unknown error occurred while generating NFT''"
      "\<And>m. m @ js '' while '' @ js ''generating NFT'' = m @ js '' while generating NFT''"
    by (simp_all add: js_def)
  show ?thesis
    unfolding final
    by (cases err)
       (auto simp: generationError_def createAPIError_def or_str_def lit Let_def
          split: option.splits)
qed

theorem generation_failure_classified_witness:
  "wallet form_ex = Some wallet_ex \<and> validateForm form_ex = None \<and>
   generationTry rng_ex 5000 (\<lambda>request. PostRejected rejected_429) wallet_ex form_ex = Inl rejected_429 \<and>
   toasts (handleUpdatePreview rng_ex 5000 (\<lambda>request. PostRejected rejected_429) form_ex) =
     [ToastError (js ''Failed to generate NFT.'')] \<and>
   \<not> loading_nftGeneration (handleUpdatePreview rng_ex 5000 (\<lambda>request. PostRejected rejected_429) form_ex) \<and>
   err_nftGeneration (handleUpdatePreview rng_ex 5000 (\<lambda>request. PostRejected rejected_429) form_ex) =
     Some \<lparr>message = js ''Too many requests. Please wait a moment before trying again.'',
           status = Some 429, code = Some (js ''RATE_LIMIT'')\<rparr> \<and>
   err_nftGeneration (handleUpdatePreview rng_ex 5000 (\<lambda>request. PostRejected rejected_timeout) form_ex) =
     Some \<lparr>message = js ''NFT generation timed out. The server may be busy, please try again.'',
           status = None, code = Some (js ''TIMEOUT'')\<rparr> \<and>
   err_nftGeneration (handleUpdatePreview rng_ex 5000 (\<lambda>request. PostRejected rejected_404) form_ex) =
     Some \<lparr>message = js ''No such artist'', status = Some 404, code = Some (js ''ERR_BAD_REQUEST'')\<rparr> \<and>
   err_nftGeneration (handleUpdatePreview rng_ex 5000 (\<lambda>request. PostResolved None) form_ex) =
     Some \<lparr>message = js ''Server returned unexpected response format. Response keys:  while generating NFT'',
           status = None, code = None\<rparr>"
proof -
  have w: "wallet form_ex = Some wallet_ex"
    by (simp add: form_ex_def initial_page_state_def)
  have v: "validateForm form_ex = None"
    by (simp add: validateForm_def form_ex_def initial_page_state_def getScarcityForCombination_def js_def)
  have e: "toasts form_ex = []"
    by (simp add: form_ex_def initial_page_state_def)
  have t: "generationTry rng_ex 5000 (\<lambda>request. PostRejected x) wallet_ex form_ex = Inl x" for x
    by (simp add: generationTry_def Let_def or_str_def form_ex_def initial_page_state_def
        wallet_ex_def js_def)
  have p: "generationTry rng_ex 5000 (\<lambda>request. PostResolved None) wallet_ex form_ex =
      Inl (ErrorObj (js ''Server returned unexpected response format. Response keys: ''))"
    by (simp add: generationTry_def parseNftResponse_def Let_def or_str_def form_ex_def
        initial_page_state_def wallet_ex_def js_def)
  have c1: "err_nftGeneration (handleUpdatePreview rng_ex 5000 (\<lambda>request. PostRejected rejected_429) form_ex) =
     Some \<lparr>message = js ''Too many requests. Please wait a moment before trying again.'',
           status = Some 429, code = Some (js ''RATE_LIMIT'')\<rparr> \<and>
     toasts (handleUpdatePreview rng_ex 5000 (\<lambda>request. PostRejected rejected_429) form_ex) =
     [ToastError (js ''Failed to generate NFT.'')] \<and>
     \<not> loading_nftGeneration (handleUpdatePreview rng_ex 5000 (\<lambda>request. PostRejected rejected_429) form_ex)"
    using generation_failure_classified [OF w v t [of rejected_429]] e
    by (auto simp: Let_def rejected_429_def js_def)
  have c2: "err_nftGeneration (handleUpdatePreview rng_ex 5000 (\<lambda>request. PostRejected rejected_timeout) form_ex) =
     Some \<lparr>message = js ''NFT generation timed out. The server may be busy, please try again.'',
           status = None, code = Some (js ''TIMEOUT'')\<rparr>"
    using generation_failure_classified [OF w v t [of rejected_timeout]]
    by (auto simp: Let_def rejected_timeout_def)
  have c3: "err_nftGeneration (handleUpdatePreview rng_ex 5000 (\<lambda>request. PostRejected rejected_404) form_ex) =
     Some \<lparr>message = js ''No such artist'', status = Some 404, code = Some (js ''ERR_BAD_REQUEST'')\<rparr>"
    using generation_failure_classified [OF w v t [of rejected_404]]
    by (auto simp: Let_def rejected_404_def js_def)
  have l: "js ''Server returned unexpected response format. Response keys: '' @ js '' while generating NFT'' =
      js ''Server returned unexpected response format. Response keys:  while generating NFT''"
    by (simp add: js_def)
  have c4: "err_nftGeneration (handleUpdatePreview rng_ex 5000 (\<lambda>request. PostResolved None) form_ex) =
     Some \<lparr>message = js ''Server returned unexpected response format. Response keys:  while generating NFT'',
           status = None, code = None\<rparr>"
    using generation_failure_classified [OF w v p]
    by (auto simp: Let_def l)
  from w v t [of rejected_429] c1 c2 c3 c4 show ?thesis by simp
qed

section \<open>The NFT data built from a response\<close>

text \<open>
  C7, at a response that has an \<open>nft_id\<close> and an \<open>image_uri\<close> but no \<open>image_url\<close>. The
  template literal \<open>`http://localhost:5000${nft.image_url}`\<close> is a non-empty string
  whatever \<open>image_url\<close> is, so the alternatives \<open>|| nft.image_uri || ''\<close> after it are
  never taken: the \<open>image_uri\<close> built is \<open>http://localhost:5000undefined\<close>, neither the
  response's \<open>image_uri\<close> nor the empty string. The other defaults are as the source
  writes them.
\<close>

theorem buildNftData_image_uri_without_image_url:
  "r_image_url nft_no_image = None \<and>
   r_image_uri nft_no_image = Some (js ''ipfs://art'') \<and>
   image_uri (buildNftData 5000 form_ex nft_no_image) = js ''http://localhost:5000undefined'' \<and>
   image_uri (buildNftData 5000 form_ex nft_no_image) \<noteq> js ''ipfs://art'' \<and>
   image_uri (buildNftData 5000 form_ex (nft_no_image\<lparr>r_image_uri := None\<rparr>)) \<noteq> [] \<and>
   nd_id (buildNftData 5000 form_ex nft_no_image) = js ''nft-42'' \<and>
   version (buildNftData 5000 form_ex nft_no_image) = 1 \<and>
   timestamp (buildNftData 5000 form_ex nft_no_image) = 5 \<and>
   evolution_history (buildNftData 5000 form_ex nft_no_image) = [] \<and>
   evolution_period_days (buildNftData 5000 form_ex nft_no_image) = 30 \<and>
   prompt (buildNftData 5000 form_ex nft_no_image) = js ''Monet style sunrise''"
  by (simp add: buildNftData_def nft_no_image_def or_str_def or_num_opt_def template_str_def
      form_ex_def initial_page_state_def js_def)

end
